theory Spec2Isabelle
  imports Complex_Main "HOL-Library.AList" "HOL-Library.Multiset"
begin

section \<open>Numbers\<close>

text \<open>
  Prices, sell values and quantities are JavaScript numbers. A number is a finite value,
  one of the two infinities, or NaN. Finite values are taken as exact reals: the rounding
  of IEEE doubles, the overflow of a finite operation to an infinity and the sign of zero
  are not modelled. The arithmetic on the other three values is that of the language.
\<close>

datatype jsnum = Fin real | PInf | NInf | NaN

fun num_add :: "jsnum \<Rightarrow> jsnum \<Rightarrow> jsnum" where
  "num_add (Fin a) (Fin b) = Fin (a + b)"
| "num_add NaN _ = NaN"
| "num_add _ NaN = NaN"
| "num_add PInf NInf = NaN"
| "num_add NInf PInf = NaN"
| "num_add PInf _ = PInf"
| "num_add _ PInf = PInf"
| "num_add NInf _ = NInf"
| "num_add _ NInf = NInf"

fun num_neg :: "jsnum \<Rightarrow> jsnum" where
  "num_neg (Fin a) = Fin (- a)"
| "num_neg PInf = NInf"
| "num_neg NInf = PInf"
| "num_neg NaN = NaN"

definition num_sub :: "jsnum \<Rightarrow> jsnum \<Rightarrow> jsnum" where
  "num_sub a b = num_add a (num_neg b)"

text \<open>\<open>is_positive v\<close> is the test \<open>v > 0\<close>, \<open>is_negative v\<close> is \<open>v < 0\<close>; both are
  false of NaN.\<close>

fun is_positive :: "jsnum \<Rightarrow> bool" where
  "is_positive (Fin a) = (0 < a)"
| "is_positive PInf = True"
| "is_positive NInf = False"
| "is_positive NaN = False"

fun is_negative :: "jsnum \<Rightarrow> bool" where
  "is_negative (Fin a) = (a < 0)"
| "is_negative PInf = False"
| "is_negative NInf = True"
| "is_negative NaN = False"

fun num_mul :: "jsnum \<Rightarrow> jsnum \<Rightarrow> jsnum" where
  "num_mul (Fin a) (Fin b) = Fin (a * b)"
| "num_mul NaN _ = NaN"
| "num_mul _ NaN = NaN"
| "num_mul a b =
     (if a = Fin 0 \<or> b = Fin 0 then NaN
      else if is_negative a = is_negative b then PInf else NInf)"

text \<open>\<open>num_less a b\<close> is the comparison \<open>a < b\<close> of the language: NaN compares with
  nothing.\<close>

fun num_less :: "jsnum \<Rightarrow> jsnum \<Rightarrow> bool" where
  "num_less (Fin a) (Fin b) = (a < b)"
| "num_less NaN _ = False"
| "num_less _ NaN = False"
| "num_less _ NInf = False"
| "num_less PInf _ = False"
| "num_less NInf _ = True"
| "num_less _ PInf = True"

fun is_finite :: "jsnum \<Rightarrow> bool" where
  "is_finite (Fin x) = True"
| "is_finite _ = False"

definition num_le :: "jsnum \<Rightarrow> jsnum \<Rightarrow> bool" where
  "num_le a b = (a \<noteq> NaN \<and> b \<noteq> NaN \<and> \<not> num_less b a)"

section \<open>Data model\<close>

text \<open>
  An \<open>Ingredient\<close> object of the price table. The entry that
  \<open>handleIngredientPriceChange\<close> writes for an id the table does not hold has the price
  only, so \<open>id\<close>, \<open>name\<close> and \<open>icon\<close> are optional here (\<open>None\<close> is the
  language's \<open>undefined\<close>).
\<close>

record ingredient =
  ing_id :: "string option"
  ing_name :: "string option"
  icon :: "string option"
  defaultPrice :: jsnum

text \<open>
  A recipe. Its \<open>ingredients\<close> are the \<open>{id, qty}\<close> entries in their order, as pairs.
  The catalogue is not among the sources under verification; whatever further fields its
  recipes carry sit in the record's extension.
\<close>

record recipe =
  recipe_id :: string
  recipe_name :: string
  skill :: string
  sellValue :: jsnum
  ingredients :: "(string \<times> jsnum) list"

text \<open>
  The price table \<open>Record<string, Ingredient>\<close> is an object used as a dictionary: a
  list of properties, each key once. \<open>map_of\<close> reads a property, \<open>AList.update\<close>
  writes one (in place when the key is there, at the end otherwise), \<open>map snd\<close> is
  \<open>Object.values\<close>. The engine's rule that keys which are array indices are enumerated
  first is not modelled: the tables of the examples have no such key, and no general
  statement of a claim depends on the order in which a table is enumerated.
\<close>

type_synonym 'v jsobject = "(string \<times> 'v) list"

text \<open>
  A read \<open>obj[k]\<close> finds more than the object's own properties: every plain object
  inherits the members of \<open>Object.prototype\<close>, which are functions, and under
  \<open>__proto__\<close> the prototype itself. A read is therefore the own property, or an
  inherited member (truthy, and with none of the fields of an entry), or \<open>undefined\<close>.
  An assignment \<open>obj[k] = v\<close> makes an own property for every key but \<open>__proto__\<close>,
  where it calls the inherited setter, and the setter ignores a number. A computed key
  of an object literal, a spread and \<open>JSON.parse\<close> make own properties for every key.
\<close>

definition object_prototype_members :: "string list" where
  "object_prototype_members =
     [''constructor'', ''__defineGetter__'', ''__defineSetter__'', ''hasOwnProperty'',
      ''__lookupGetter__'', ''__lookupSetter__'', ''isPrototypeOf'', ''propertyIsEnumerable'',
      ''toString'', ''valueOf'', ''__proto__'', ''toLocaleString'']"

datatype 'v property = Own 'v | Inherited | Undefined

definition get_property :: "'v jsobject \<Rightarrow> string \<Rightarrow> 'v property" where
  "get_property obj k =
     (case map_of obj k of
        Some v \<Rightarrow> Own v
      | None \<Rightarrow> if k \<in> set object_prototype_members then Inherited else Undefined)"


text \<open>
  A value as \<open>JSON.parse\<close> returns it. The parser belongs to the browser, not to the
  repository: where the source calls \<open>JSON.parse\<close>, the model takes the outcome of the
  call as an input, \<open>Unparseable\<close> when the call throws \<open>SyntaxError\<close> and
  \<open>Parsed v\<close> when it returns \<open>v\<close>.
\<close>

datatype json =
  JNull | JBool bool | JNum jsnum | JStr string | JArr "json list" | JObj "(string \<times> json) list"

text \<open>The properties of a document that is an object, and the reading of one of them.\<close>

fun json_entries :: "json \<Rightarrow> (string \<times> json) list" where
  "json_entries (JObj fs) = fs"
| "json_entries _ = []"

definition json_property :: "json \<Rightarrow> string \<Rightarrow> json option" where
  "json_property doc k = map_of (json_entries doc) k"

datatype 'a parsed = Unparseable | Parsed 'a

datatype js_error = SyntaxError | TypeError

section \<open>Component state\<close>

datatype sort_mode = ByName | ByProfit | ByTotalCost

text \<open>
  The state variables of \<open>LifeSkillCalculator\<close>. \<open>selectedRecipe\<close> starts as the first
  recipe of the catalogue and is a recipe by its declared type.
\<close>

record 'a calc_state =
  st_ingredients :: "ingredient jsobject"
  st_recipes :: "'a recipe_scheme list"
  groupedRecipes :: "('a recipe_scheme list) jsobject"
  selectedSkill :: string
  selectedRecipe :: "'a recipe_scheme"
  sortBy :: sort_mode

text \<open>\<open>groupRecipesBySkill\<close>: each recipe is pushed on the array under its skill, which
  is created empty when the skill is seen first. A skill that names an inherited member is
  left out: the component calls this function on the catalogue when it is first
  rendered, where such a skill makes \<open>push\<close> fail on the member, so no state of the
  component holds a recipe of such a skill, and the handlers never change a skill.\<close>

definition groupRecipesBySkill :: "'a recipe_scheme list \<Rightarrow> ('a recipe_scheme list) jsobject" where
  "groupRecipesBySkill rs =
     foldl (\<lambda>grouped r.
         AList.update (skill r)
           ((case map_of grouped (skill r) of None \<Rightarrow> [] | Some g \<Rightarrow> g) @ [r]) grouped)
       [] rs"

section \<open>Cost engine\<close>

text \<open>
  \<open>calculateRecipeCost\<close> closes over the state variables \<open>ingredients\<close> and
  \<open>recipes\<close>; they are the first two arguments here. The body is the \<open>reduce\<close> of
  the source, from \<open>0\<close>, with the reducer's three returns (\<open>acc\<close> is the reducer's \<open>sum\<close>).
  \<open>ingredients[id]\<close> is a read of a plain object: when the table has no such key and
  the id names an inherited member, \<open>ing\<close> is that member, the test \<open>if (ing)\<close>
  succeeds, \<open>ing.defaultPrice\<close> is \<open>undefined\<close> and the product is NaN.
\<close>

definition cost_step ::
  "ingredient jsobject \<Rightarrow> ('a recipe_scheme) list \<Rightarrow> jsnum \<Rightarrow> string \<times> jsnum \<Rightarrow> jsnum" where
  "cost_step ings rs acc e =
     (case get_property ings (fst e) of
        Own ing \<Rightarrow> num_add acc (num_mul (defaultPrice ing) (snd e))
      | Inherited \<Rightarrow> num_add acc (num_mul NaN (snd e))
      | Undefined \<Rightarrow>
          (case find (\<lambda>r. recipe_id r = fst e) rs of
             Some nestedRecipe \<Rightarrow> num_add acc (num_mul (sellValue nestedRecipe) (snd e))
           | None \<Rightarrow> acc))"

definition calculateRecipeCost ::
  "ingredient jsobject \<Rightarrow> ('a recipe_scheme) list \<Rightarrow> 'b recipe_scheme \<Rightarrow> jsnum" where
  "calculateRecipeCost ings rs r = foldl (cost_step ings rs) (Fin 0) (ingredients r)"

text \<open>
  The specification's reading of the cost: each entry contributes a price times the
  quantity, a nested recipe's sell value times the quantity, or nothing, and the
  contributions are added up in the order of the entries.
\<close>

definition contribution ::
  "ingredient jsobject \<Rightarrow> ('a recipe_scheme) list \<Rightarrow> string \<times> jsnum \<Rightarrow> jsnum" where
  "contribution ings rs e =
     (if fst e \<in> fst ` set ings
      then num_mul (defaultPrice (the (map_of ings (fst e)))) (snd e)
      else if fst e \<in> recipe_id ` set rs
      then num_mul (sellValue (hd (filter (\<lambda>r. recipe_id r = fst e) rs))) (snd e)
      else Fin 0)"

definition sum_in_order :: "jsnum list \<Rightarrow> jsnum" where
  "sum_in_order cs = foldl num_add (Fin 0) cs"

text \<open>The ids that a recipe's entries look up: each is a key of the price table or is not
  the name of an inherited member.\<close>

definition plain_ids :: "ingredient jsobject \<Rightarrow> 'b recipe_scheme \<Rightarrow> bool" where
  "plain_ids ings r =
     list_all (\<lambda>e. fst e \<in> fst ` set ings \<or> fst e \<notin> set object_prototype_members)
       (ingredients r)"


section \<open>Handlers of the price store\<close>

text \<open>
  The updater that \<open>handleIngredientPriceChange\<close> hands to \<open>setIngredients\<close>:
  \<open>{...prev, [id]: {...prev[id], defaultPrice: newPrice}}\<close>. Spreading the \<open>undefined\<close>
  of a missing key gives no property, and so does spreading an inherited member, which
  has no enumerable property of its own: for an id that is no key of the table the new
  entry has the price only. The computed key makes it an own property for every id.
\<close>

definition withIngredientPrice :: "string \<Rightarrow> jsnum \<Rightarrow> ingredient jsobject \<Rightarrow> ingredient jsobject" where
  "withIngredientPrice i newPrice prev =
     AList.update i
       (case map_of prev i of
          Some ing \<Rightarrow> ing\<lparr>defaultPrice := newPrice\<rparr>
        | None \<Rightarrow> \<lparr>ing_id = None, ing_name = None, icon = None, defaultPrice = newPrice\<rparr>)
       prev"

definition handleIngredientPriceChange :: "string \<Rightarrow> jsnum \<Rightarrow> 'a calc_state \<Rightarrow> 'a calc_state" where
  "handleIngredientPriceChange i newPrice st =
     st\<lparr>st_ingredients := withIngredientPrice i newPrice (st_ingredients st)\<rparr>"

definition handleRecipeSellValueChange :: "string \<Rightarrow> jsnum \<Rightarrow> 'a calc_state \<Rightarrow> 'a calc_state" where
  "handleRecipeSellValueChange i newValue st =
     (let updated = map (\<lambda>r. if recipe_id r = i then r\<lparr>sellValue := newValue\<rparr> else r)
                      (st_recipes st)
      in st\<lparr>st_recipes := updated,
            groupedRecipes := groupRecipesBySkill updated,
            selectedRecipe :=
              (case find (\<lambda>r. recipe_id r = recipe_id (selectedRecipe st)) updated of
                 Some selected \<Rightarrow> selected
               | None \<Rightarrow> selectedRecipe st)\<rparr>)"

text \<open>A read of the store: the price under an id, if the table has the id.\<close>

definition price_of :: "ingredient jsobject \<Rightarrow> string \<Rightarrow> jsnum option" where
  "price_of table i = map_option defaultPrice (map_of table i)"

section \<open>Loading the saved state\<close>

text \<open>
  The effect that runs once at startup. An item of \<open>localStorage\<close> is \<open>None\<close> when
  \<open>getItem\<close> returns \<open>null\<close>, and otherwise the stored text together with the outcome
  of \<open>JSON.parse\<close> on it, read at the type the source uses the value at: the price
  table for \<open>"ingredients"\<close>, and for \<open>"recipes"\<close> an object from recipe ids to the
  optional \<open>sellValue\<close> of each. A document that parses to another shape is outside the
  declared types and outside this model. The source tests the text for truthiness, so
  the empty text counts as absent; nothing catches what \<open>JSON.parse\<close> throws. An
  inherited member read for a recipe id has no \<open>sellValue\<close> and counts as no override.
  The two
  effects that save the state after every change write to \<open>localStorage\<close> and change
  no state of the component; they are not modelled.
\<close>

record 'v saved_item =
  item_text :: string
  item_parse :: "'v parsed"

definition load_ingredients ::
  "(ingredient jsobject) saved_item option \<Rightarrow> 'a calc_state \<Rightarrow> js_error + 'a calc_state" where
  "load_ingredients savedIngredients st =
     (case savedIngredients of
        None \<Rightarrow> Inr st
      | Some item \<Rightarrow>
          if item_text item = [] then Inr st
          else (case item_parse item of
                  Unparseable \<Rightarrow> Inl SyntaxError
                | Parsed table \<Rightarrow> Inr (st\<lparr>st_ingredients := table\<rparr>)))"

definition load_recipes ::
  "((jsnum option) jsobject) saved_item option \<Rightarrow> 'a calc_state \<Rightarrow> js_error + 'a calc_state" where
  "load_recipes savedRecipes st =
     (case savedRecipes of
        None \<Rightarrow> Inr st
      | Some item \<Rightarrow>
          if item_text item = [] then Inr st
          else (case item_parse item of
                  Unparseable \<Rightarrow> Inl SyntaxError
                | Parsed overrides \<Rightarrow>
                    Inr (st\<lparr>st_recipes :=
                      map (\<lambda>r. r\<lparr>sellValue :=
                             (case map_of overrides (recipe_id r) of
                                Some (Some v) \<Rightarrow> v
                              | _ \<Rightarrow> sellValue r)\<rparr>)
                        (st_recipes st)\<rparr>)))"

definition load_saved ::
  "(ingredient jsobject) saved_item option \<Rightarrow> ((jsnum option) jsobject) saved_item option \<Rightarrow>
   'a calc_state \<Rightarrow> js_error + 'a calc_state" where
  "load_saved savedIngredients savedRecipes st =
     (case load_ingredients savedIngredients st of
        Inl e \<Rightarrow> Inl e
      | Inr st1 \<Rightarrow> load_recipes savedRecipes st1)"

section \<open>The recipe listing\<close>

text \<open>
  \<open>Array.prototype.sort\<close> belongs to the language. It is stable, it takes a comparator
  result of NaN for \<open>0\<close>, and with a consistent comparator its result is the one stable
  arrangement in the comparator's order; with an inconsistent comparator the order is
  left to the engine. It is modelled by a stable insertion sort, which moves an element
  behind another only when the comparator is positive on the two. A comparator that
  subtracts two keys is NaN, and so undecided, on a key that is NaN against every other
  key; it is then not consistent.
\<close>

fun insert_sorted :: "('a \<Rightarrow> 'a \<Rightarrow> jsnum) \<Rightarrow> 'a \<Rightarrow> 'a list \<Rightarrow> 'a list" where
  "insert_sorted cmp x [] = [x]"
| "insert_sorted cmp x (y # ys) =
     (if is_positive (cmp x y) then y # insert_sorted cmp x ys else x # y # ys)"

definition sorted_by :: "('a \<Rightarrow> 'a \<Rightarrow> jsnum) \<Rightarrow> 'a list \<Rightarrow> 'a list" where
  "sorted_by cmp xs = foldr (insert_sorted cmp) xs []"

text \<open>
  The comparator of the listing. \<open>String.prototype.localeCompare\<close> depends on the
  browser's locale and is the parameter \<open>localeCompare\<close>; its integer result is the
  number the comparator returns. \<open>cost_in\<close> is \<open>calculateRecipeCost\<close> as the closure
  over the state that the component defines, \<open>profit_in\<close> the difference the
  comparator computes from it.
\<close>

definition cost_in :: "'a calc_state \<Rightarrow> 'b recipe_scheme \<Rightarrow> jsnum" where
  "cost_in st r = calculateRecipeCost (st_ingredients st) (st_recipes st) r"

definition profit_in :: "'a calc_state \<Rightarrow> 'b recipe_scheme \<Rightarrow> jsnum" where
  "profit_in st r = num_sub (sellValue r) (cost_in st r)"

definition compareRecipes ::
  "(string \<Rightarrow> string \<Rightarrow> int) \<Rightarrow> 'a calc_state \<Rightarrow> 'a recipe_scheme \<Rightarrow> 'a recipe_scheme \<Rightarrow> jsnum" where
  "compareRecipes localeCompare st a b =
     (case sortBy st of
        ByName \<Rightarrow> Fin (of_int (localeCompare (recipe_name a) (recipe_name b)))
      | ByProfit \<Rightarrow> num_sub (profit_in st b) (profit_in st a)
      | ByTotalCost \<Rightarrow> num_sub (cost_in st a) (cost_in st b))"

definition filterBySkill :: "string \<Rightarrow> 'a recipe_scheme list \<Rightarrow> 'a recipe_scheme list" where
  "filterBySkill selected rs =
     (if selected = ''All'' then rs else filter (\<lambda>r. skill r = selected) rs)"

definition sortRecipes ::
  "(string \<Rightarrow> string \<Rightarrow> int) \<Rightarrow> 'a calc_state \<Rightarrow> 'a recipe_scheme list \<Rightarrow> 'a recipe_scheme list" where
  "sortRecipes localeCompare st rs = sorted_by (compareRecipes localeCompare st) rs"

text \<open>The list that \<open>filteredRecipes\<close> denotes.\<close>

definition filteredRecipes ::
  "(string \<Rightarrow> string \<Rightarrow> int) \<Rightarrow> 'a calc_state \<Rightarrow> 'a recipe_scheme list" where
  "filteredRecipes localeCompare st =
     sortRecipes localeCompare st (filterBySkill (selectedSkill st) (st_recipes st))"

definition displayedGroups ::
  "(string \<Rightarrow> string \<Rightarrow> int) \<Rightarrow> 'a calc_state \<Rightarrow> ('a recipe_scheme list) jsobject" where
  "displayedGroups localeCompare st = groupRecipesBySkill (filteredRecipes localeCompare st)"

subsection \<open>The order a comparator stands for\<close>

text \<open>
  \<open>stands_before cmp a b\<close>: the comparator does not ask for \<open>a\<close> behind \<open>b\<close>. A
  comparator is consistent on a set when this relation is transitive and total there,
  which is what the language asks of a comparator for the order of the result to be
  determined.
\<close>

definition stands_before :: "('a \<Rightarrow> 'a \<Rightarrow> jsnum) \<Rightarrow> 'a \<Rightarrow> 'a \<Rightarrow> bool" where
  "stands_before cmp a b = (\<not> is_positive (cmp a b))"

definition consistent_on :: "('a \<Rightarrow> 'a \<Rightarrow> jsnum) \<Rightarrow> 'a set \<Rightarrow> bool" where
  "consistent_on cmp A =
     ((\<forall>a \<in> A. \<forall>b \<in> A. \<forall>c \<in> A.
         stands_before cmp a b \<and> stands_before cmp b c \<longrightarrow> stands_before cmp a c)
      \<and> (\<forall>a \<in> A. \<forall>b \<in> A. stands_before cmp a b \<or> stands_before cmp b a))"

text \<open>The same for \<open>localeCompare\<close> on a set of names: not being positive is
  transitive and total there.\<close>

definition locale_order_on :: "(string \<Rightarrow> string \<Rightarrow> int) \<Rightarrow> string set \<Rightarrow> bool" where
  "locale_order_on localeCompare N =
     ((\<forall>a \<in> N. \<forall>b \<in> N. \<forall>c \<in> N.
         localeCompare a b \<le> 0 \<and> localeCompare b c \<le> 0 \<longrightarrow> localeCompare a c \<le> 0)
      \<and> (\<forall>a \<in> N. \<forall>b \<in> N. localeCompare a b \<le> 0 \<or> localeCompare b a \<le> 0))"

text \<open>Two elements tie when each may stand before the other.\<close>

definition ties_with :: "('a \<Rightarrow> 'a \<Rightarrow> jsnum) \<Rightarrow> 'a \<Rightarrow> 'a \<Rightarrow> bool" where
  "ties_with cmp a b = (stands_before cmp a b \<and> stands_before cmp b a)"

subsection \<open>The same expression over a store of arrays\<close>

text \<open>
  Which array \<open>sort\<close> writes to depends on the sharing of arrays, so the expression is
  modelled a second time over an explicit store: arrays live at addresses,
  \<open>filter\<close> allocates its result, \<open>sort\<close> overwrites the array it is called on and
  returns the same address. \<open>recipesRef\<close> is the address of the array that the state
  variable \<open>recipes\<close> holds; the comparator reads that array. An address is that of
  an array when it is below the length of the store, which the statements about the
  store assume of \<open>recipesRef\<close>: the language has no reference to nothing.
\<close>

type_synonym 'a array_store = "'a recipe_scheme list list"

definition array_new :: "'a recipe_scheme list \<Rightarrow> 'a array_store \<Rightarrow> 'a array_store \<times> nat" where
  "array_new xs h = (h @ [xs], length h)"

definition Array_filter ::
  "('a recipe_scheme \<Rightarrow> bool) \<Rightarrow> nat \<Rightarrow> 'a array_store \<Rightarrow> 'a array_store \<times> nat" where
  "Array_filter p a h = array_new (filter p (h ! a)) h"

definition Array_sort ::
  "('a recipe_scheme \<Rightarrow> 'a recipe_scheme \<Rightarrow> jsnum) \<Rightarrow> nat \<Rightarrow> 'a array_store \<Rightarrow> 'a array_store \<times> nat" where
  "Array_sort cmp a h = (h[a := sorted_by cmp (h ! a)], a)"

definition filteredRecipes_in_store ::
  "(string \<Rightarrow> string \<Rightarrow> int) \<Rightarrow> 'a calc_state \<Rightarrow> nat \<Rightarrow> 'a array_store \<Rightarrow> 'a array_store \<times> nat" where
  "filteredRecipes_in_store localeCompare st recipesRef h =
     (let cmp = compareRecipes localeCompare (st\<lparr>st_recipes := h ! recipesRef\<rparr>);
          (h1, a) = (if selectedSkill st = ''All'' then (h, recipesRef)
                     else Array_filter (\<lambda>r. skill r = selectedSkill st) recipesRef h)
      in Array_sort cmp a h1)"

section \<open>The ingredient panel\<close>

text \<open>The properties and the state of \<open>IngredientMaster\<close>: the full list of ingredients
  it is given (\<open>Object.values\<close> of the price table) and the search text.\<close>

record ingredient_master =
  im_ingredients :: "ingredient list"
  search :: string

text \<open>\<open>s.includes(t)\<close>: the text \<open>t\<close> occurs in \<open>s\<close>.\<close>

fun str_includes :: "string \<Rightarrow> string \<Rightarrow> bool" where
  "str_includes [] t = (t = [])"
| "str_includes (c # s) t = (take (length t) (c # s) = t \<or> str_includes s t)"

text \<open>
  The displayed list \<open>filtered\<close>. \<open>toLowerCase\<close> is the language's and a parameter. An
  ingredient without a name makes the callback throw, since \<open>toLowerCase\<close> is called
  on \<open>undefined\<close>.
\<close>

fun filter_by_name :: "(string \<Rightarrow> string) \<Rightarrow> string \<Rightarrow> ingredient list \<Rightarrow> js_error + ingredient list" where
  "filter_by_name toLowerCase q [] = Inr []"
| "filter_by_name toLowerCase q (ing # ings) =
     (case ing_name ing of
        None \<Rightarrow> Inl TypeError
      | Some n \<Rightarrow>
          (case filter_by_name toLowerCase q ings of
             Inl e \<Rightarrow> Inl e
           | Inr shown \<Rightarrow>
               Inr (if str_includes (toLowerCase n) (toLowerCase q) then ing # shown else shown)))"

definition filtered :: "(string \<Rightarrow> string) \<Rightarrow> ingredient_master \<Rightarrow> js_error + ingredient list" where
  "filtered toLowerCase p = filter_by_name toLowerCase (search p) (im_ingredients p)"

text \<open>
  \<open>handleDownload\<close>. \<open>priceData\<close> is the object the \<open>reduce\<close> builds by assignments
  \<open>acc[ing.id] = ing.defaultPrice\<close>: the property written for an ingredient is named by
  its \<open>id\<close>, an \<open>id\<close> that is \<open>undefined\<close> names the property \<open>"undefined"\<close>, and
  for the id \<open>__proto__\<close> the assignment writes nothing. \<open>JSON.stringify\<close> writes a
  number that is not finite as \<open>null\<close>. The result here is the document whose text goes into the blob;
  the link, the dated file name and the click are effects on the page and not modelled.
\<close>

definition property_key :: "string option \<Rightarrow> string" where
  "property_key k = (case k of None \<Rightarrow> ''undefined'' | Some s \<Rightarrow> s)"

definition export_key :: "ingredient \<Rightarrow> string" where
  "export_key ing = property_key (ing_id ing)"

definition priceData :: "ingredient list \<Rightarrow> jsnum jsobject" where
  "priceData ings =
     foldl (\<lambda>acc ing.
         if export_key ing = ''__proto__'' then acc
         else AList.update (export_key ing) (defaultPrice ing) acc)
       [] ings"

fun json_of_number :: "jsnum \<Rightarrow> json" where
  "json_of_number (Fin x) = JNum (Fin x)"
| "json_of_number _ = JNull"

definition handleDownload :: "ingredient_master \<Rightarrow> json" where
  "handleDownload p = JObj (map (\<lambda>(k, v). (k, json_of_number v)) (priceData (im_ingredients p)))"

text \<open>
  \<open>handleUpload\<close>. \<open>Object.entries\<close> throws on \<open>null\<close>, gives nothing for a boolean or a
  number, the indexed characters of a string, the indexed elements of an array and the
  properties of an object.
\<close>

definition digit_char :: "nat \<Rightarrow> char" where
  "digit_char d = char_of (48 + d)"

fun decimal :: "nat \<Rightarrow> string" where
  "decimal n = (if n < 10 then [digit_char n] else decimal (n div 10) @ [digit_char (n mod 10)])"

declare decimal.simps [simp del]

definition indexed :: "json list \<Rightarrow> (string \<times> json) list" where
  "indexed vs = map (\<lambda>(n, v). (decimal n, v)) (enumerate 0 vs)"

fun Object_entries :: "json \<Rightarrow> js_error + (string \<times> json) list" where
  "Object_entries JNull = Inl TypeError"
| "Object_entries (JBool b) = Inr []"
| "Object_entries (JNum n) = Inr []"
| "Object_entries (JStr s) = Inr (indexed (map (\<lambda>c. JStr [c]) s))"
| "Object_entries (JArr vs) = Inr (indexed vs)"
| "Object_entries (JObj fs) = Inr fs"

text \<open>The \<open>forEach\<close> over the entries: \<open>onPriceChange\<close> is called on the entries whose
  value has the type \<open>number\<close>, in their order. \<open>onPriceChange\<close> is the callback the
  panel is given; it changes a state of the caller.\<close>

fun apply_entries :: "(string \<Rightarrow> jsnum \<Rightarrow> 's \<Rightarrow> 's) \<Rightarrow> (string \<times> json) list \<Rightarrow> 's \<Rightarrow> 's" where
  "apply_entries onPriceChange [] s = s"
| "apply_entries onPriceChange ((i, JNum price) # es) s =
     apply_entries onPriceChange es (onPriceChange i price s)"
| "apply_entries onPriceChange ((i, v) # es) s = apply_entries onPriceChange es s"

text \<open>The specification's reading of the import: the entries of the document whose
  value is a number, in their order.\<close>

definition numeric_entries :: "(string \<times> json) list \<Rightarrow> (string \<times> jsnum) list" where
  "numeric_entries es = [(i, price). (i, JNum price) \<leftarrow> es]"

datatype notice = UpdatedSuccessfully | FailedToParse

text \<open>\<open>reader.onload\<close>: the \<open>try\<close> block with its \<open>catch\<close>, given the outcome of
  \<open>JSON.parse\<close> on the text of the file. The result is the caller's state and the
  alerts shown.\<close>

definition reader_onload ::
  "(string \<Rightarrow> jsnum \<Rightarrow> 's \<Rightarrow> 's) \<Rightarrow> json parsed \<Rightarrow> 's \<Rightarrow> 's \<times> notice list" where
  "reader_onload onPriceChange result s =
     (case result of
        Unparseable \<Rightarrow> (s, [FailedToParse])
      | Parsed doc \<Rightarrow>
          (case Object_entries doc of
             Inl e \<Rightarrow> (s, [FailedToParse])
           | Inr es \<Rightarrow> (apply_entries onPriceChange es s, [UpdatedSuccessfully])))"

text \<open>\<open>handleUpload\<close> returns at once when no file was chosen.\<close>

definition handleUpload ::
  "(string \<Rightarrow> jsnum \<Rightarrow> 's \<Rightarrow> 's) \<Rightarrow> json parsed option \<Rightarrow> 's \<Rightarrow> 's \<times> notice list" where
  "handleUpload onPriceChange file s =
     (case file of None \<Rightarrow> (s, []) | Some result \<Rightarrow> reader_onload onPriceChange result s)"

text \<open>
  The round trip of export and import. The panel of a component in the state \<open>st\<close>
  exports its list; \<open>JSON.stringify\<close> renders the document as the text of the file and
  \<open>JSON.parse\<close> reads that text back as the same document, which is the contract of
  the two; the panel of a component in the state \<open>fresh\<close> imports it with the handler
  it is wired to.
\<close>

definition export_then_import ::
  "'a calc_state \<Rightarrow> string \<Rightarrow> 'b calc_state \<Rightarrow> 'b calc_state \<times> notice list" where
  "export_then_import st q fresh =
     handleUpload handleIngredientPriceChange
       (Some (Parsed (handleDownload \<lparr>im_ingredients = map snd (st_ingredients st), search = q\<rparr>)))
       fresh"

section \<open>Examples\<close>

text \<open>The specification's example: \<open>iron_ore\<close> costs 10, \<open>R1\<close> needs three of it and
  sells for 50, \<open>R2\<close> needs two \<open>R1\<close> and sells for 150.\<close>

definition iron_ore :: ingredient where
  "iron_ore = \<lparr>ing_id = Some ''iron_ore'', ing_name = Some ''Iron Ore'', icon = None,
     defaultPrice = Fin 10\<rparr>"

definition R1 :: recipe where
  "R1 = \<lparr>recipe_id = ''R1'', recipe_name = ''Iron Ingot'', skill = ''Smelting'',
     sellValue = Fin 50, ingredients = [(''iron_ore'', Fin 3)]\<rparr>"

definition R2 :: recipe where
  "R2 = \<lparr>recipe_id = ''R2'', recipe_name = ''Iron Plate'', skill = ''Smelting'',
     sellValue = Fin 150, ingredients = [(''R1'', Fin 2)]\<rparr>"

text \<open>A third recipe, of another skill, whose one entry names neither an ingredient nor a
  recipe; a fourth, with the profit of the first; a second ingredient; the price table
  and a state of the component.\<close>

definition R3 :: recipe where
  "R3 = \<lparr>recipe_id = ''R3'', recipe_name = ''Linen'', skill = ''Weaving'',
     sellValue = Fin 40, ingredients = [(''flax'', Fin 4)]\<rparr>"

definition R4 :: recipe where
  "R4 = \<lparr>recipe_id = ''R4'', recipe_name = ''Iron Nail'', skill = ''Smelting'',
     sellValue = Fin 35, ingredients = [(''iron_ore'', Fin 1.5)]\<rparr>"

definition gem :: ingredient where
  "gem = \<lparr>ing_id = Some ''gem'', ing_name = Some ''Gem'', icon = None, defaultPrice = Fin 25\<rparr>"

definition example_table :: "ingredient jsobject" where
  "example_table = [(''iron_ore'', iron_ore), (''gem'', gem)]"

definition example_state :: "unit calc_state" where
  "example_state =
     \<lparr>st_ingredients = example_table, st_recipes = [R1, R2, R3],
      groupedRecipes = groupRecipesBySkill [R1, R2, R3], selectedSkill = ''All'',
      selectedRecipe = R1, sortBy = ByProfit\<rparr>"

text \<open>
  The state after the price field of \<open>iron_ore\<close> was emptied and the listing had been
  sorted by cost: \<open>parseFloat\<close> of the empty text is NaN, and the sort by cost left the
  recipes of the state in the order \<open>R3\<close>, \<open>R1\<close>, \<open>R2\<close>.
\<close>

definition emptied_field_state :: "unit calc_state" where
  "emptied_field_state =
     handleIngredientPriceChange ''iron_ore'' NaN (example_state\<lparr>st_recipes := [R3, R1, R2]\<rparr>)"

text \<open>A recipe with an entry whose id is the name of an inherited member and of no
  ingredient or recipe; price tables as a saved state can hold them: one with an entry
  of the id \<open>__proto__\<close>, one with two entries of one id.\<close>

definition R5 :: recipe where
  "R5 = \<lparr>recipe_id = ''R5'', recipe_name = ''Blueprint'', skill = ''Smelting'',
     sellValue = Fin 10, ingredients = [(''constructor'', Fin 1)]\<rparr>"

definition proto_table :: "ingredient jsobject" where
  "proto_table =
     [(''__proto__'', \<lparr>ing_id = Some ''__proto__'', ing_name = Some ''Proto'', icon = None,
         defaultPrice = Fin 5\<rparr>)]"

definition twin_table :: "ingredient jsobject" where
  "twin_table =
     [(''ore_a'', \<lparr>ing_id = Some ''ore'', ing_name = Some ''Ore A'', icon = None,
         defaultPrice = Fin 1\<rparr>),
      (''ore_b'', \<lparr>ing_id = Some ''ore'', ing_name = Some ''Ore B'', icon = None,
         defaultPrice = Fin 2\<rparr>)]"

text \<open>The import document of the specification's example.\<close>

definition example_import :: json where
  "example_import =
     JObj [(''iron_ore'', JNum (Fin 12)), (''bogus_id'', JNum (Fin 99)), (''gem'', JStr ''x'')]"

text \<open>A comparison of texts by their character codes, to stand for \<open>localeCompare\<close> in
  the examples.\<close>

fun code_order :: "string \<Rightarrow> string \<Rightarrow> int" where
  "code_order [] [] = 0"
| "code_order [] (b # bs) = - 1"
| "code_order (a # as) [] = 1"
| "code_order (a # as) (b # bs) =
     (if (of_char a :: nat) < of_char b then - 1
      else if (of_char b :: nat) < of_char a then 1
      else code_order as bs)"

section \<open>Properties of the cost engine\<close>

lemma num_add_zero_right: "num_add a (Fin 0) = a"
  by (cases a) simp_all

lemma num_add_NaN_right: "num_add a NaN = NaN"
  by (cases a) simp_all

lemma find_recipe_id:
  "find (\<lambda>r. recipe_id r = i) rs =
     (if i \<in> recipe_id ` set rs then Some (hd (filter (\<lambda>r. recipe_id r = i) rs)) else None)"
  by (induction rs) auto

lemma get_property_own:
  "k \<in> fst ` set obj \<Longrightarrow> get_property obj k = Own (the (map_of obj k))"
  by (cases "map_of obj k") (auto simp: get_property_def map_of_eq_None_iff)

lemma get_property_undefined:
  "k \<notin> fst ` set obj \<Longrightarrow> k \<notin> set object_prototype_members \<Longrightarrow> get_property obj k = Undefined"
  by (simp add: get_property_def map_of_eq_None_iff [THEN iffD2])

lemma get_property_inherited:
  "k \<notin> fst ` set obj \<Longrightarrow> k \<in> set object_prototype_members \<Longrightarrow> get_property obj k = Inherited"
  by (simp add: get_property_def map_of_eq_None_iff [THEN iffD2])

lemma cost_step_contribution:
  assumes "fst e \<in> fst ` set ings \<or> fst e \<notin> set object_prototype_members"
  shows "cost_step ings rs acc e = num_add acc (contribution ings rs e)"
proof (cases "fst e \<in> fst ` set ings")
  case True
  then show ?thesis
    by (simp add: cost_step_def contribution_def get_property_own)
next
  case False
  with assms have "get_property ings (fst e) = Undefined"
    by (simp add: get_property_undefined)
  with False show ?thesis
    by (simp add: cost_step_def contribution_def find_recipe_id num_add_zero_right)
qed

lemma foldl_cost_step:
  "list_all (\<lambda>e. fst e \<in> fst ` set ings \<or> fst e \<notin> set object_prototype_members) es \<Longrightarrow>
   foldl (cost_step ings rs) acc es = foldl num_add acc (map (contribution ings rs) es)"
  by (induction es arbitrary: acc) (simp_all add: cost_step_contribution)

text \<open>An entry whose id the table lacks and which names an inherited member makes the
  sum NaN, whatever the recipes are.\<close>

lemma cost_step_inherited:
  "fst e \<notin> fst ` set ings \<Longrightarrow> fst e \<in> set object_prototype_members \<Longrightarrow>
   cost_step ings rs acc e = NaN"
  by (simp add: cost_step_def get_property_inherited num_add_NaN_right)

lemma find_ingredients_update:
  "find (\<lambda>r. recipe_id r = i) (map (\<lambda>r. r\<lparr>ingredients := f r\<rparr>) rs) =
   map_option (\<lambda>r. r\<lparr>ingredients := f r\<rparr>) (find (\<lambda>r. recipe_id r = i) rs)"
  by (induction rs) simp_all

lemma cost_step_one_level:
  "cost_step ings (map (\<lambda>r. r\<lparr>ingredients := f r\<rparr>) rs) = cost_step ings rs"
  by (rule ext, rule ext)
     (simp add: cost_step_def find_ingredients_update split: property.splits option.splits)

text \<open>
  Claim C1, as amended. For every recipe, price table and recipe list such that every id
  of the recipe's entries is a key of the table or is not the name of a member that
  objects inherit, \<open>calculateRecipeCost\<close> is the sum, over the recipe's entries in
  their order, of the price times the quantity when the id is a key of the price table,
  otherwise of the sell value of the first recipe with that id times the quantity,
  otherwise of nothing. The nested recipe is looked up one level only: replacing the
  ingredient lists of all recipes of the list leaves the cost as it is. A recipe without
  entries costs 0, and in the specification's example \<open>R2\<close> costs 100 although \<open>R1\<close>
  costs 30.
\<close>

theorem calculateRecipeCost_sum:
  "(plain_ids ings r \<longrightarrow>
      calculateRecipeCost ings rs r = sum_in_order (map (contribution ings rs) (ingredients r)))
   \<and> calculateRecipeCost ings (map (\<lambda>n. n\<lparr>ingredients := f n\<rparr>) rs) r
       = calculateRecipeCost ings rs r
   \<and> calculateRecipeCost ings rs (r\<lparr>ingredients := []\<rparr>) = Fin 0
   \<and> calculateRecipeCost [(''iron_ore'', iron_ore)] [R1, R2] R2 = Fin 100
   \<and> calculateRecipeCost [(''iron_ore'', iron_ore)] [R1, R2] R1 = Fin 30"
proof -
  have a: "plain_ids ings r \<longrightarrow>
      calculateRecipeCost ings rs r = sum_in_order (map (contribution ings rs) (ingredients r))"
    by (simp add: calculateRecipeCost_def sum_in_order_def plain_ids_def foldl_cost_step)
  have b: "calculateRecipeCost ings (map (\<lambda>n. n\<lparr>ingredients := f n\<rparr>) rs) r
      = calculateRecipeCost ings rs r"
    by (simp add: calculateRecipeCost_def cost_step_one_level)
  have c: "calculateRecipeCost ings rs (r\<lparr>ingredients := []\<rparr>) = Fin 0"
    by (simp add: calculateRecipeCost_def)
  have d: "calculateRecipeCost [(''iron_ore'', iron_ore)] [R1, R2] R2 = Fin 100"
    by (simp add: calculateRecipeCost_def cost_step_def get_property_def
        object_prototype_members_def R1_def R2_def iron_ore_def)
  have e: "calculateRecipeCost [(''iron_ore'', iron_ore)] [R1, R2] R1 = Fin 30"
    by (simp add: calculateRecipeCost_def cost_step_def get_property_def
        object_prototype_members_def R1_def R2_def iron_ore_def)
  show ?thesis
    by (intro conjI) (rule a, rule b, rule c, rule d, rule e)
qed

theorem calculateRecipeCost_sum_witness:
  "plain_ids [(''iron_ore'', iron_ore)] R2
   \<and> calculateRecipeCost [(''iron_ore'', iron_ore)] [R1, R2] R2
       = sum_in_order (map (contribution [(''iron_ore'', iron_ore)] [R1, R2]) (ingredients R2))
   \<and> sum_in_order (map (contribution [(''iron_ore'', iron_ore)] [R1, R2]) (ingredients R2)) = Fin 100"
proof -
  have plain: "plain_ids [(''iron_ore'', iron_ore)] R2"
    by (simp add: plain_ids_def object_prototype_members_def R2_def)
  from calculateRecipeCost_sum [of "[(''iron_ore'', iron_ore)]" R2 "[R1, R2]"] plain
  have eq: "calculateRecipeCost [(''iron_ore'', iron_ore)] [R1, R2] R2
       = sum_in_order (map (contribution [(''iron_ore'', iron_ore)] [R1, R2]) (ingredients R2))"
    by blast
  have val: "sum_in_order (map (contribution [(''iron_ore'', iron_ore)] [R1, R2]) (ingredients R2))
      = Fin 100"
    by (simp add: sum_in_order_def contribution_def R1_def R2_def)
  show ?thesis
    by (intro conjI) (rule plain, rule eq, rule val)
qed

text \<open>
  The claim as it stands fails for an id that names an inherited member. \<open>constructor\<close>
  is a key of no entry of the price table and the id of no recipe, so the sum of the
  claim gives \<open>R5\<close> the cost 0; the code reads the inherited \<open>constructor\<close> of the table
  as the ingredient, and the cost is NaN.
\<close>

theorem inherited_member_costs_NaN:
  "map_of example_table ''constructor'' = None
   \<and> find (\<lambda>r. recipe_id r = ''constructor'') [R1, R2, R5] = None
   \<and> sum_in_order (map (contribution example_table [R1, R2, R5]) (ingredients R5)) = Fin 0
   \<and> calculateRecipeCost example_table [R1, R2, R5] R5 = NaN"
  by (simp add: calculateRecipeCost_def cost_step_def get_property_def sum_in_order_def
      contribution_def object_prototype_members_def example_table_def R1_def R2_def R5_def)

section \<open>Properties of the price store\<close>

lemma map_of_withIngredientPrice:
  "map_of (withIngredientPrice i p tbl) =
     (map_of tbl)(i \<mapsto> (case map_of tbl i of
          Some ing \<Rightarrow> ing\<lparr>defaultPrice := p\<rparr>
        | None \<Rightarrow> \<lparr>ing_id = None, ing_name = None, icon = None, defaultPrice = p\<rparr>))"
  by (simp add: withIngredientPrice_def update_conv')

lemma update_others_in_place:
  "filter (\<lambda>e. fst e \<noteq> k) (AList.update k v al) = filter (\<lambda>e. fst e \<noteq> k) al"
  by (induction al) auto

lemma price_of_withIngredientPrice:
  "price_of (withIngredientPrice i p tbl) j = (if j = i then Some p else price_of tbl j)"
  by (simp add: price_of_def map_of_withIngredientPrice split: option.splits)

text \<open>
  Claim C5. After \<open>handleIngredientPriceChange i p\<close>, for any id and any number, a read of
  the price under \<open>i\<close> gives \<open>p\<close>. Every other key of the table reads as before, the
  other entries are the same and in the same order, the other fields of the entry under
  \<open>i\<close> are kept, and the recipes are untouched. The price is not inspected: the witness
  uses a negative one.
\<close>

theorem handleIngredientPriceChange_read:
  "price_of (st_ingredients (handleIngredientPriceChange i p st)) i = Some p
   \<and> (\<forall>j. j \<noteq> i \<longrightarrow>
         map_of (st_ingredients (handleIngredientPriceChange i p st)) j
           = map_of (st_ingredients st) j)
   \<and> filter (\<lambda>e. fst e \<noteq> i) (st_ingredients (handleIngredientPriceChange i p st))
       = filter (\<lambda>e. fst e \<noteq> i) (st_ingredients st)
   \<and> (\<forall>ing. map_of (st_ingredients st) i = Some ing \<longrightarrow>
         map_of (st_ingredients (handleIngredientPriceChange i p st)) i
           = Some (ing\<lparr>defaultPrice := p\<rparr>))
   \<and> st_recipes (handleIngredientPriceChange i p st) = st_recipes st"
proof -
  let ?st' = "handleIngredientPriceChange i p st"
  have tbl: "st_ingredients ?st' = withIngredientPrice i p (st_ingredients st)"
    by (simp add: handleIngredientPriceChange_def)
  have "price_of (st_ingredients ?st') i = Some p"
    by (simp add: tbl price_of_withIngredientPrice)
  moreover have "\<forall>j. j \<noteq> i \<longrightarrow> map_of (st_ingredients ?st') j = map_of (st_ingredients st) j"
    by (simp add: tbl map_of_withIngredientPrice)
  moreover have "filter (\<lambda>e. fst e \<noteq> i) (st_ingredients ?st')
       = filter (\<lambda>e. fst e \<noteq> i) (st_ingredients st)"
    by (simp add: tbl withIngredientPrice_def update_others_in_place)
  moreover have "\<forall>ing. map_of (st_ingredients st) i = Some ing \<longrightarrow>
         map_of (st_ingredients ?st') i = Some (ing\<lparr>defaultPrice := p\<rparr>)"
    by (simp add: tbl map_of_withIngredientPrice)
  moreover have "st_recipes ?st' = st_recipes st"
    by (simp add: handleIngredientPriceChange_def)
  ultimately show ?thesis by blast
qed

theorem handleIngredientPriceChange_read_witness:
  "price_of (st_ingredients (handleIngredientPriceChange ''gem'' (Fin (- 3)) example_state)) ''gem''
     = Some (Fin (- 3))
   \<and> map_of (st_ingredients (handleIngredientPriceChange ''gem'' (Fin (- 3)) example_state)) ''iron_ore''
     = Some iron_ore
   \<and> map_of (st_ingredients (handleIngredientPriceChange ''gem'' (Fin (- 3)) example_state)) ''gem''
     = Some (gem\<lparr>defaultPrice := Fin (- 3)\<rparr>)"
proof -
  have a: "(''iron_ore'' :: string) \<noteq> ''gem''" by simp
  have b: "map_of (st_ingredients example_state) ''gem'' = Some gem"
    by (simp add: example_state_def example_table_def)
  have c: "map_of (st_ingredients example_state) ''iron_ore'' = Some iron_ore"
    by (simp add: example_state_def example_table_def)
  from handleIngredientPriceChange_read [of "''gem''" "Fin (- 3)" example_state] a b c
  show ?thesis by metis
qed

lemma map_sellValue_absent:
  "i \<notin> recipe_id ` set rs \<Longrightarrow>
   map (\<lambda>r. if recipe_id r = i then r\<lparr>sellValue := v\<rparr> else r) rs = rs"
  by (induction rs) auto

text \<open>
  Claim C6. \<open>handleRecipeSellValueChange i v\<close> leaves the recipe list as it is when no
  recipe has the id \<open>i\<close>. Otherwise the list keeps its length and order, a recipe with
  the id \<open>i\<close> becomes the same recipe with \<open>sellValue\<close> replaced by \<open>v\<close>, every other
  recipe is unchanged, and so is the price table.
\<close>

theorem handleRecipeSellValueChange_frame:
  "(i \<notin> recipe_id ` set (st_recipes st) \<longrightarrow>
      st_recipes (handleRecipeSellValueChange i v st) = st_recipes st)
   \<and> length (st_recipes (handleRecipeSellValueChange i v st)) = length (st_recipes st)
   \<and> (\<forall>n < length (st_recipes st).
        st_recipes (handleRecipeSellValueChange i v st) ! n
          = (if recipe_id (st_recipes st ! n) = i then (st_recipes st ! n)\<lparr>sellValue := v\<rparr>
             else st_recipes st ! n))
   \<and> (\<forall>n < length (st_recipes st).
        recipe_id (st_recipes (handleRecipeSellValueChange i v st) ! n) = recipe_id (st_recipes st ! n)
      \<and> recipe_name (st_recipes (handleRecipeSellValueChange i v st) ! n) = recipe_name (st_recipes st ! n)
      \<and> skill (st_recipes (handleRecipeSellValueChange i v st) ! n) = skill (st_recipes st ! n)
      \<and> ingredients (st_recipes (handleRecipeSellValueChange i v st) ! n) = ingredients (st_recipes st ! n)
      \<and> recipe.more (st_recipes (handleRecipeSellValueChange i v st) ! n) = recipe.more (st_recipes st ! n))
   \<and> st_ingredients (handleRecipeSellValueChange i v st) = st_ingredients st"
proof -
  let ?upd = "\<lambda>r. if recipe_id r = i then r\<lparr>sellValue := v\<rparr> else r"
  have rs: "st_recipes (handleRecipeSellValueChange i v st) = map ?upd (st_recipes st)"
    by (simp add: handleRecipeSellValueChange_def Let_def)
  have "i \<notin> recipe_id ` set (st_recipes st) \<longrightarrow> map ?upd (st_recipes st) = st_recipes st"
    by (simp add: map_sellValue_absent)
  moreover have "\<forall>n < length (st_recipes st).
      map ?upd (st_recipes st) ! n = ?upd (st_recipes st ! n)"
    by simp
  moreover have "st_ingredients (handleRecipeSellValueChange i v st) = st_ingredients st"
    by (simp add: handleRecipeSellValueChange_def Let_def)
  ultimately show ?thesis
    unfolding rs by simp
qed

theorem handleRecipeSellValueChange_frame_witness:
  "st_recipes (handleRecipeSellValueChange ''R9'' (Fin 200) example_state) = [R1, R2, R3]
   \<and> st_recipes (handleRecipeSellValueChange ''R2'' (Fin 200) example_state) ! 1
       = R2\<lparr>sellValue := Fin 200\<rparr>
   \<and> st_recipes (handleRecipeSellValueChange ''R2'' (Fin 200) example_state) ! 2 = R3"
proof -
  have rs: "st_recipes example_state = [R1, R2, R3]"
    by (simp add: example_state_def)
  have absent: "''R9'' \<notin> recipe_id ` set (st_recipes example_state)"
    by (simp add: rs R1_def R2_def R3_def)
  have ids: "recipe_id R2 = ''R2''" "recipe_id R3 \<noteq> ''R2''"
    by (simp_all add: R2_def R3_def)
  from handleRecipeSellValueChange_frame [of "''R9''" example_state "Fin 200"] absent
  have "st_recipes (handleRecipeSellValueChange ''R9'' (Fin 200) example_state) = [R1, R2, R3]"
    by (simp add: rs)
  moreover from handleRecipeSellValueChange_frame [of "''R2''" example_state "Fin 200"]
  have "\<forall>n < 3. st_recipes (handleRecipeSellValueChange ''R2'' (Fin 200) example_state) ! n
          = (if recipe_id ([R1, R2, R3] ! n) = ''R2'' then ([R1, R2, R3] ! n)\<lparr>sellValue := Fin 200\<rparr>
             else [R1, R2, R3] ! n)"
    by (simp add: rs)
  then have "st_recipes (handleRecipeSellValueChange ''R2'' (Fin 200) example_state) ! 1
               = R2\<lparr>sellValue := Fin 200\<rparr>
           \<and> st_recipes (handleRecipeSellValueChange ''R2'' (Fin 200) example_state) ! 2 = R3"
    using ids by (simp add: numeral_3_eq_3)
  ultimately show ?thesis by blast
qed

section \<open>Properties of the startup load\<close>

text \<open>
  Claim C3. A saved text that \<open>JSON.parse\<close> rejects is not treated as absence by the
  startup load: the \<open>SyntaxError\<close> leaves the effect, for the price table as for the
  recipe overrides. With nothing saved the state is kept, and so it is with an empty
  text, which the truthiness test takes for absent.
\<close>

theorem load_saved_unparseable:
  "load_saved (Some \<lparr>item_text = ''{oops'', item_parse = Unparseable\<rparr>) savedRecipes st
     = Inl SyntaxError
   \<and> load_saved None (Some \<lparr>item_text = ''{oops'', item_parse = Unparseable\<rparr>) st
     = Inl SyntaxError
   \<and> load_saved None None st = Inr st
   \<and> load_saved (Some \<lparr>item_text = '''', item_parse = Unparseable\<rparr>) None st = Inr st"
  by (simp add: load_saved_def load_ingredients_def load_recipes_def)

section \<open>Properties of the import\<close>

lemma numeric_entries_Nil: "numeric_entries [] = []"
  by (simp add: numeric_entries_def)

lemma numeric_entries_Cons:
  "numeric_entries ((i, v) # es) =
     (case v of JNum price \<Rightarrow> (i, price) # numeric_entries es | _ \<Rightarrow> numeric_entries es)"
  by (simp add: numeric_entries_def split: json.splits)

lemma apply_entries_foldl:
  "apply_entries f es s = foldl (\<lambda>s (i, price). f i price s) s (numeric_entries es)"
proof (induction es arbitrary: s)
  case Nil
  show ?case by (simp add: numeric_entries_Nil)
next
  case (Cons e es)
  obtain i v where e: "e = (i, v)" by (cases e)
  show ?case
    unfolding e by (cases v) (simp_all add: Cons.IH numeric_entries_Cons)
qed

lemma foldl_record_calls:
  "foldl (\<lambda>calls (i, price). calls @ [(i, price)]) acc es = acc @ es"
  by (induction es arbitrary: acc) auto

lemma set_numeric_entries:
  "set (numeric_entries es) = {(i, price). (i, JNum price) \<in> set es}"
proof (induction es)
  case Nil
  show ?case by (simp add: numeric_entries_Nil)
next
  case (Cons e es)
  obtain i v where e: "e = (i, v)" by (cases e)
  show ?case
    unfolding e using Cons.IH by (cases v) (auto simp: numeric_entries_Cons)
qed

lemma handleUpload_parsed:
  "handleUpload f (Some (Parsed doc)) s =
       (case Object_entries doc of
          Inl e \<Rightarrow> (s, [FailedToParse])
        | Inr es \<Rightarrow>
            (foldl (\<lambda>s (i, price). f i price s) s (numeric_entries es), [UpdatedSuccessfully]))"
  by (simp add: handleUpload_def reader_onload_def apply_entries_foldl split: sum.splits)

text \<open>
  Claim C4. When the text of the file does not parse, \<open>handleUpload\<close> shows the failure
  notice and leaves the caller's state as it was. When it parses, the callback is applied
  to the entries whose value is a number, in their order, and to no other entry, and
  the success notice is shown; recording the calls gives exactly those entries. In the
  specification's example the price of \<open>iron_ore\<close> becomes 12, \<open>gem\<close> stays, and
  \<open>bogus_id\<close> is stored.
\<close>

theorem handleUpload_numeric_entries:
  "handleUpload f (Some Unparseable) s = (s, [FailedToParse])
   \<and> handleUpload f (Some (Parsed doc)) s =
       (case Object_entries doc of
          Inl e \<Rightarrow> (s, [FailedToParse])
        | Inr es \<Rightarrow>
            (foldl (\<lambda>s (i, price). f i price s) s (numeric_entries es), [UpdatedSuccessfully]))
   \<and> handleUpload f (Some (Parsed (JObj fs))) s =
       (foldl (\<lambda>s (i, price). f i price s) s (numeric_entries fs), [UpdatedSuccessfully])
   \<and> handleUpload (\<lambda>i price calls. calls @ [(i, price)]) (Some (Parsed (JObj fs))) []
       = (numeric_entries fs, [UpdatedSuccessfully])
   \<and> set (numeric_entries fs) = {(i, price). (i, JNum price) \<in> set fs}
   \<and> handleUpload withIngredientPrice (Some (Parsed example_import)) example_table
       = ([(''iron_ore'', iron_ore\<lparr>defaultPrice := Fin 12\<rparr>), (''gem'', gem),
           (''bogus_id'', \<lparr>ing_id = None, ing_name = None, icon = None, defaultPrice = Fin 99\<rparr>)],
          [UpdatedSuccessfully])"
proof -
  have a: "handleUpload f (Some Unparseable) s = (s, [FailedToParse])"
    by (simp add: handleUpload_def reader_onload_def)
  have b: "handleUpload f (Some (Parsed doc)) s =
       (case Object_entries doc of
          Inl e \<Rightarrow> (s, [FailedToParse])
        | Inr es \<Rightarrow>
            (foldl (\<lambda>s (i, price). f i price s) s (numeric_entries es), [UpdatedSuccessfully]))"
    by (rule handleUpload_parsed)
  have c: "handleUpload f (Some (Parsed (JObj fs))) s =
       (foldl (\<lambda>s (i, price). f i price s) s (numeric_entries fs), [UpdatedSuccessfully])"
    by (simp add: handleUpload_parsed)
  have d: "handleUpload (\<lambda>i price calls. calls @ [(i, price)]) (Some (Parsed (JObj fs))) []
       = (numeric_entries fs, [UpdatedSuccessfully])"
    by (simp add: handleUpload_parsed foldl_record_calls)
  have e: "set (numeric_entries fs) = {(i, price). (i, JNum price) \<in> set fs}"
    by (rule set_numeric_entries)
  have g: "handleUpload withIngredientPrice (Some (Parsed example_import)) example_table
       = ([(''iron_ore'', iron_ore\<lparr>defaultPrice := Fin 12\<rparr>), (''gem'', gem),
           (''bogus_id'', \<lparr>ing_id = None, ing_name = None, icon = None, defaultPrice = Fin 99\<rparr>)],
          [UpdatedSuccessfully])"
    by (simp add: handleUpload_def reader_onload_def example_import_def example_table_def
        withIngredientPrice_def)
  show ?thesis
    by (intro conjI) (rule a, rule b, rule c, rule d, rule e, rule g)
qed

section \<open>Properties of the export\<close>

lemma update_fresh_key: "k \<notin> fst ` set al \<Longrightarrow> AList.update k v al = al @ [(k, v)]"
  by (induction al) auto

lemma foldl_priceData_distinct:
  "distinct (map export_key ings) \<Longrightarrow> export_key ` set ings \<inter> fst ` set acc = {} \<Longrightarrow>
   foldl (\<lambda>acc ing.
       if export_key ing = ''__proto__'' then acc
       else AList.update (export_key ing) (defaultPrice ing) acc) acc ings
     = acc @ map (\<lambda>ing. (export_key ing, defaultPrice ing))
               (filter (\<lambda>ing. export_key ing \<noteq> ''__proto__'') ings)"
proof (induction ings arbitrary: acc)
  case Nil
  show ?case by simp
next
  case (Cons ing ings)
  show ?case
  proof (cases "export_key ing = ''__proto__''")
    case True
    have "export_key ` set ings \<inter> fst ` set acc = {}"
      using Cons.prems by auto
    with Cons.prems(1) Cons.IH [of acc] True show ?thesis
      by simp
  next
    case False
    have fresh: "export_key ing \<notin> fst ` set acc"
      using Cons.prems(2) by auto
    have step: "AList.update (export_key ing) (defaultPrice ing) acc
                  = acc @ [(export_key ing, defaultPrice ing)]"
      using fresh by (simp add: update_fresh_key)
    have "export_key ` set ings \<inter> fst ` set (acc @ [(export_key ing, defaultPrice ing)]) = {}"
      using Cons.prems by auto
    with Cons.prems(1) Cons.IH [of "acc @ [(export_key ing, defaultPrice ing)]"] False
    show ?thesis by (simp add: step)
  qed
qed

lemma priceData_distinct:
  "distinct (map export_key ings) \<Longrightarrow>
   priceData ings = map (\<lambda>ing. (export_key ing, defaultPrice ing))
                      (filter (\<lambda>ing. export_key ing \<noteq> ''__proto__'') ings)"
  using foldl_priceData_distinct [of ings "[]"] by (simp add: priceData_def)

lemma foldl_priceData_keys:
  "fst ` set (foldl (\<lambda>acc ing.
       if export_key ing = ''__proto__'' then acc
       else AList.update (export_key ing) (defaultPrice ing) acc) acc ings)
     = fst ` set acc \<union> (export_key ` set ings - {''__proto__''})"
  by (induction ings arbitrary: acc) (auto simp: dom_update)

lemma priceData_keys: "fst ` set (priceData ings) = export_key ` set ings - {''__proto__''}"
  by (simp add: priceData_def foldl_priceData_keys)

lemma foldl_priceData_distinct_keys:
  "distinct (map fst acc) \<Longrightarrow>
   distinct (map fst (foldl (\<lambda>acc ing.
       if export_key ing = ''__proto__'' then acc
       else AList.update (export_key ing) (defaultPrice ing) acc) acc ings))"
  by (induction ings arbitrary: acc) (simp_all add: distinct_update)

lemma filter_by_name_shown:
  "filter_by_name lower q ings = Inr shown \<Longrightarrow>
   shown = filter (\<lambda>ing. str_includes (lower (the (ing_name ing))) (lower q)) ings"
  by (induction ings arbitrary: shown) (auto split: option.splits sum.splits if_splits)

lemma filter_by_name_nameless:
  "ing \<in> set ings \<Longrightarrow> ing_name ing = None \<Longrightarrow> filter_by_name lower q ings = Inl TypeError"
proof (induction ings)
  case Nil
  then show ?case by simp
next
  case (Cons x ings)
  show ?case
  proof (cases "ing_name x")
    case None
    then show ?thesis by simp
  next
    case (Some n)
    with Cons.prems have "ing \<in> set ings" by auto
    then have "filter_by_name lower q ings = Inl TypeError"
      using Cons.prems(2) by (rule Cons.IH)
    with Some show ?thesis by simp
  qed
qed

text \<open>The panel cannot show a list that holds an entry without a name, such as the entry
  stored for an id the table did not have.\<close>

lemma filtered_nameless:
  "ing \<in> set (im_ingredients p) \<Longrightarrow> ing_name ing = None \<Longrightarrow> filtered lower p = Inl TypeError"
  by (simp add: filtered_def filter_by_name_nameless)

lemma priceData_lookup:
  assumes "distinct (map export_key ings)" and "ing \<in> set ings"
    and "export_key ing \<noteq> ''__proto__''"
  shows "map_of (priceData ings) (export_key ing) = Some (defaultPrice ing)"
proof -
  let ?written = "filter (\<lambda>ing. export_key ing \<noteq> ''__proto__'') ings"
  let ?entries = "map (\<lambda>ing. (export_key ing, defaultPrice ing)) ?written"
  have "map fst ?entries = map export_key ?written"
    by (simp add: comp_def)
  moreover have "distinct (map export_key ?written)"
    using assms(1) by (rule distinct_map_filter)
  ultimately have "distinct (map fst ?entries)"
    by (simp only:)
  moreover have "(export_key ing, defaultPrice ing) \<in> set ?entries"
    using assms(2,3) by auto
  ultimately have "map_of ?entries (export_key ing) = Some (defaultPrice ing)"
    by (simp only: map_of_eq_Some_iff)
  then show ?thesis
    using assms(1) by (simp only: priceData_distinct)
qed

lemma json_property_handleDownload:
  "json_property (handleDownload p) k
     = map_option json_of_number (map_of (priceData (im_ingredients p)) k)"
  by (simp add: json_property_def handleDownload_def map_of_map)

lemma json_keys_handleDownload:
  "map fst (json_entries (handleDownload p)) = map fst (priceData (im_ingredients p))"
  by (simp add: handleDownload_def comp_def case_prod_unfold)

lemma json_of_finite: "is_finite v \<Longrightarrow> json_of_number v = JNum v"
  by (cases v) simp_all

text \<open>
  Claim C10, as amended. Whatever the search text of the panel, the exported document is
  the same. Its keys are the ids of the ingredients of the full list other than
  \<open>__proto__\<close>, each key once. When the ids of the list are pairwise different, the
  document has, under the id of each ingredient of the list other than \<open>__proto__\<close>, the
  current price of that ingredient as \<open>JSON.stringify\<close> writes it: the price itself when
  it is finite, \<open>null\<close> otherwise. The search text only selects the ingredients shown.
\<close>

theorem handleDownload_ignores_search:
  "handleDownload (p\<lparr>search := q\<rparr>) = handleDownload p
   \<and> fst ` set (json_entries (handleDownload (p\<lparr>search := q\<rparr>)))
       = export_key ` set (im_ingredients p) - {''__proto__''}
   \<and> distinct (map fst (json_entries (handleDownload (p\<lparr>search := q\<rparr>))))
   \<and> (distinct (map export_key (im_ingredients p)) \<longrightarrow>
        (\<forall>ing \<in> set (im_ingredients p). export_key ing \<noteq> ''__proto__'' \<longrightarrow>
           json_property (handleDownload (p\<lparr>search := q\<rparr>)) (export_key ing)
             = Some (json_of_number (defaultPrice ing))
           \<and> (is_finite (defaultPrice ing) \<longrightarrow>
                json_property (handleDownload (p\<lparr>search := q\<rparr>)) (export_key ing)
                  = Some (JNum (defaultPrice ing)))))"
proof -
  have a: "handleDownload (p\<lparr>search := q\<rparr>) = handleDownload p"
    by (simp add: handleDownload_def)
  have "set (map fst (json_entries (handleDownload p)))
          = export_key ` set (im_ingredients p) - {''__proto__''}"
    unfolding json_keys_handleDownload by (simp add: priceData_keys)
  then have b: "fst ` set (json_entries (handleDownload (p\<lparr>search := q\<rparr>)))
                  = export_key ` set (im_ingredients p) - {''__proto__''}"
    by (simp add: a)
  have "distinct (map fst (json_entries (handleDownload p)))"
    unfolding json_keys_handleDownload by (simp add: priceData_def foldl_priceData_distinct_keys)
  then have c: "distinct (map fst (json_entries (handleDownload (p\<lparr>search := q\<rparr>))))"
    by (simp add: a)
  have d: "distinct (map export_key (im_ingredients p)) \<longrightarrow>
        (\<forall>ing \<in> set (im_ingredients p). export_key ing \<noteq> ''__proto__'' \<longrightarrow>
           json_property (handleDownload (p\<lparr>search := q\<rparr>)) (export_key ing)
             = Some (json_of_number (defaultPrice ing))
           \<and> (is_finite (defaultPrice ing) \<longrightarrow>
                json_property (handleDownload (p\<lparr>search := q\<rparr>)) (export_key ing)
                  = Some (JNum (defaultPrice ing))))"
    by (simp add: a json_property_handleDownload priceData_lookup json_of_finite)
  show ?thesis
    by (intro conjI) (rule a, rule b, rule c, rule d)
qed

theorem handleDownload_ignores_search_witness:
  "json_property (handleDownload \<lparr>im_ingredients = [iron_ore, gem], search = ''Gem''\<rparr>) ''iron_ore''
     = Some (JNum (Fin 10))
   \<and> handleDownload \<lparr>im_ingredients = [iron_ore, gem], search = ''Gem''\<rparr>
     = handleDownload \<lparr>im_ingredients = [iron_ore, gem], search = ''''\<rparr>
   \<and> filtered (\<lambda>s. s) \<lparr>im_ingredients = [iron_ore, gem], search = ''Gem''\<rparr> = Inr [gem]
   \<and> filtered (\<lambda>s. s) \<lparr>im_ingredients = [iron_ore, gem], search = ''''\<rparr> = Inr [iron_ore, gem]"
proof -
  let ?p = "\<lparr>im_ingredients = [iron_ore, gem], search = ''''\<rparr>"
  have keys: "distinct (map export_key (im_ingredients ?p))"
    by (simp add: export_key_def property_key_def iron_ore_def gem_def)
  have ore: "iron_ore \<in> set (im_ingredients ?p)" "export_key iron_ore = ''iron_ore''"
    "export_key iron_ore \<noteq> ''__proto__''" "is_finite (defaultPrice iron_ore)"
    "defaultPrice iron_ore = Fin 10"
    by (simp_all add: export_key_def property_key_def iron_ore_def)
  note export = handleDownload_ignores_search [where p = ?p and q = "''Gem''"]
  from export have "handleDownload (?p\<lparr>search := ''Gem''\<rparr>) = handleDownload ?p"
    by blast
  then have same: "handleDownload \<lparr>im_ingredients = [iron_ore, gem], search = ''Gem''\<rparr>
                = handleDownload \<lparr>im_ingredients = [iron_ore, gem], search = ''''\<rparr>"
    by simp
  from export keys ore(1,3,4)
  have "json_property (handleDownload (?p\<lparr>search := ''Gem''\<rparr>)) (export_key iron_ore)
          = Some (JNum (defaultPrice iron_ore))"
    by blast
  then have doc: "json_property (handleDownload \<lparr>im_ingredients = [iron_ore, gem], search = ''Gem''\<rparr>)
      ''iron_ore'' = Some (JNum (Fin 10))"
    by (simp add: ore)
  have shown: "filtered (\<lambda>s. s) \<lparr>im_ingredients = [iron_ore, gem], search = ''Gem''\<rparr> = Inr [gem]"
    by (simp add: filtered_def iron_ore_def gem_def)
  have all: "filtered (\<lambda>s. s) \<lparr>im_ingredients = [iron_ore, gem], search = ''''\<rparr>
      = Inr [iron_ore, gem]"
    by (simp add: filtered_def iron_ore_def gem_def)
  show ?thesis
    by (intro conjI) (rule doc, rule same, rule shown, rule all)
qed

text \<open>
  The claim as it stands fails in three ways. With the price field of \<open>iron_ore\<close> emptied
  its price is NaN, and the document has \<open>null\<close> under \<open>iron_ore\<close>, not the price. Of two
  ingredients with one id the document has one key, with the price of the second. For
  an ingredient with the id \<open>__proto__\<close> the document has no key.
\<close>

theorem exported_price_not_the_price:
  "defaultPrice (the (map_of (st_ingredients (handleIngredientPriceChange ''iron_ore'' NaN example_state))
       ''iron_ore'')) = NaN
   \<and> handleDownload
        \<lparr>im_ingredients =
           map snd (st_ingredients (handleIngredientPriceChange ''iron_ore'' NaN example_state)),
         search = ''''\<rparr>
       = JObj [(''iron_ore'', JNull), (''gem'', JNum (Fin 25))]
   \<and> map defaultPrice (map snd twin_table) = [Fin 1, Fin 2]
   \<and> handleDownload \<lparr>im_ingredients = map snd twin_table, search = ''''\<rparr>
       = JObj [(''ore'', JNum (Fin 2))]
   \<and> map ing_id (map snd proto_table) = [Some ''__proto__'']
   \<and> handleDownload \<lparr>im_ingredients = map snd proto_table, search = ''''\<rparr> = JObj []"
  by (simp add: handleDownload_def priceData_def export_key_def property_key_def
      handleIngredientPriceChange_def withIngredientPrice_def example_state_def
      example_table_def twin_table_def proto_table_def iron_ore_def gem_def)

section \<open>Properties of the sort\<close>

lemma set_insert_sorted: "set (insert_sorted cmp x ys) = insert x (set ys)"
  by (induction ys) auto

lemma mset_insert_sorted: "mset (insert_sorted cmp x ys) = add_mset x (mset ys)"
  by (induction ys) auto

lemma mset_sorted_by: "mset (sorted_by cmp xs) = mset xs"
  by (induction xs) (simp_all add: sorted_by_def mset_insert_sorted)

lemma set_sorted_by: "set (sorted_by cmp xs) = set xs"
  using mset_sorted_by [of cmp xs] by (metis set_mset_mset)

lemma sorted_by_Cons: "sorted_by cmp (x # xs) = insert_sorted cmp x (sorted_by cmp xs)"
  by (simp add: sorted_by_def)

lemma consistent_on_subset: "consistent_on cmp A \<Longrightarrow> B \<subseteq> A \<Longrightarrow> consistent_on cmp B"
  unfolding consistent_on_def by blast

lemma consistent_trans:
  "consistent_on cmp A \<Longrightarrow> a \<in> A \<Longrightarrow> b \<in> A \<Longrightarrow> c \<in> A \<Longrightarrow>
   stands_before cmp a b \<Longrightarrow> stands_before cmp b c \<Longrightarrow> stands_before cmp a c"
  unfolding consistent_on_def by blast

lemma consistent_total:
  "consistent_on cmp A \<Longrightarrow> a \<in> A \<Longrightarrow> b \<in> A \<Longrightarrow>
   \<not> stands_before cmp a b \<Longrightarrow> stands_before cmp b a"
  unfolding consistent_on_def by blast

lemma sorted_insert_sorted:
  assumes "consistent_on cmp (insert x (set ys))" and "sorted_wrt (stands_before cmp) ys"
  shows "sorted_wrt (stands_before cmp) (insert_sorted cmp x ys)"
  using assms
proof (induction ys)
  case Nil
  show ?case by simp
next
  case (Cons y ys)
  have cons: "consistent_on cmp (insert x (set ys))"
    using Cons.prems(1) by (rule consistent_on_subset) auto
  from Cons.prems(2) have sorted_tail: "sorted_wrt (stands_before cmp) ys"
    and y_first: "\<forall>z \<in> set ys. stands_before cmp y z"
    by simp_all
  show ?case
  proof (cases "is_positive (cmp x y)")
    case True
    then have "\<not> stands_before cmp x y"
      by (simp add: stands_before_def)
    then have "stands_before cmp y x"
      using Cons.prems(1) by (auto intro: consistent_total)
    with y_first have "\<forall>z \<in> set (insert_sorted cmp x ys). stands_before cmp y z"
      by (simp add: set_insert_sorted)
    moreover have "sorted_wrt (stands_before cmp) (insert_sorted cmp x ys)"
      using cons sorted_tail by (rule Cons.IH)
    ultimately show ?thesis
      using True by simp
  next
    case False
    then have xy: "stands_before cmp x y"
      by (simp add: stands_before_def)
    have "\<forall>z \<in> set ys. stands_before cmp x z"
    proof
      fix z assume z: "z \<in> set ys"
      with y_first have "stands_before cmp y z" by blast
      with xy show "stands_before cmp x z"
        using Cons.prems(1) z by (auto intro: consistent_trans [where b = y])
    qed
    with xy Cons.prems(2) False show ?thesis
      by simp
  qed
qed

lemma sorted_sorted_by:
  "consistent_on cmp (set xs) \<Longrightarrow> sorted_wrt (stands_before cmp) (sorted_by cmp xs)"
proof (induction xs)
  case Nil
  show ?case by (simp add: sorted_by_def)
next
  case (Cons x xs)
  have "consistent_on cmp (set xs)"
    using Cons.prems by (rule consistent_on_subset) auto
  then have "sorted_wrt (stands_before cmp) (sorted_by cmp xs)"
    by (rule Cons.IH)
  moreover have "consistent_on cmp (insert x (set (sorted_by cmp xs)))"
    using Cons.prems by (simp add: set_sorted_by)
  ultimately show ?case
    unfolding sorted_by_Cons by (rule sorted_insert_sorted [rotated])
qed

lemma filter_ties_insert_sorted:
  assumes "consistent_on cmp A" and "a \<in> A" and "x \<in> A" and "set ys \<subseteq> A"
  shows "filter (ties_with cmp a) (insert_sorted cmp x ys)
           = (if ties_with cmp a x then x # filter (ties_with cmp a) ys
              else filter (ties_with cmp a) ys)"
  using assms(4)
proof (induction ys)
  case Nil
  show ?case by simp
next
  case (Cons y ys)
  then have y: "y \<in> A" and ys: "set ys \<subseteq> A" by simp_all
  show ?case
  proof (cases "is_positive (cmp x y)")
    case False
    then show ?thesis by simp
  next
    case True
    have "\<not> (ties_with cmp a x \<and> ties_with cmp a y)"
    proof
      assume both: "ties_with cmp a x \<and> ties_with cmp a y"
      then have "stands_before cmp x a" and "stands_before cmp a y"
        by (simp_all add: ties_with_def)
      then have "stands_before cmp x y"
        using assms(1-3) y by (auto intro: consistent_trans [where b = a])
      with True show False
        by (simp add: stands_before_def)
    qed
    with True Cons.IH [OF ys] show ?thesis
      by auto
  qed
qed

lemma filter_ties_sorted_by:
  assumes "consistent_on cmp A" and "a \<in> A" and "set xs \<subseteq> A"
  shows "filter (ties_with cmp a) (sorted_by cmp xs) = filter (ties_with cmp a) xs"
  using assms(3)
proof (induction xs)
  case Nil
  show ?case by (simp add: sorted_by_def)
next
  case (Cons x xs)
  then have x: "x \<in> A" and xs: "set xs \<subseteq> A" by simp_all
  have "set (sorted_by cmp xs) \<subseteq> A"
    using xs by (simp add: set_sorted_by)
  with assms(1,2) x
  have "filter (ties_with cmp a) (insert_sorted cmp x (sorted_by cmp xs))
          = (if ties_with cmp a x then x # filter (ties_with cmp a) (sorted_by cmp xs)
             else filter (ties_with cmp a) (sorted_by cmp xs))"
    by (rule filter_ties_insert_sorted)
  with Cons.IH [OF xs] show ?case
    by (simp add: sorted_by_Cons)
qed

subsection \<open>Comparators that compare a key\<close>

lemma is_positive_sub: "a \<noteq> NaN \<Longrightarrow> b \<noteq> NaN \<Longrightarrow> is_positive (num_sub b a) = num_less a b"
  by (cases a; cases b) (simp_all add: num_sub_def)

lemma num_less_trans_neg:
  "a \<noteq> NaN \<Longrightarrow> b \<noteq> NaN \<Longrightarrow> c \<noteq> NaN \<Longrightarrow>
   \<not> num_less b a \<Longrightarrow> \<not> num_less c b \<Longrightarrow> \<not> num_less c a"
  by (cases a; cases b; cases c) simp_all

lemma num_less_asym: "num_less a b \<Longrightarrow> \<not> num_less b a"
  by (cases a; cases b) simp_all

lemma num_less_neither: "a \<noteq> NaN \<Longrightarrow> b \<noteq> NaN \<Longrightarrow> (\<not> num_less a b \<and> \<not> num_less b a) = (a = b)"
  by (cases a; cases b) auto

lemma num_less_neg: "num_less (num_neg a) (num_neg b) = num_less b a"
  by (cases a; cases b) simp_all

lemma num_neg_eq_NaN: "(num_neg a = NaN) = (a = NaN)"
  by (cases a) simp_all

lemma num_neg_inj: "(num_neg a = num_neg b) = (a = b)"
  by (cases a; cases b) simp_all

lemma stands_before_key:
  assumes "is_positive (cmp a b) = num_less (key b) (key a)" and "key a \<noteq> NaN" and "key b \<noteq> NaN"
  shows "stands_before cmp a b = num_le (key a) (key b)"
  using assms by (simp add: stands_before_def num_le_def)

lemma consistent_on_key:
  assumes cmp: "\<And>a b. a \<in> A \<Longrightarrow> b \<in> A \<Longrightarrow> is_positive (cmp a b) = num_less (key b) (key a)"
    and keys: "\<And>r. r \<in> A \<Longrightarrow> key r \<noteq> NaN"
  shows "consistent_on cmp A"
  unfolding consistent_on_def stands_before_def
proof (intro conjI ballI impI)
  fix a b c assume "a \<in> A" "b \<in> A" "c \<in> A"
    and "\<not> is_positive (cmp a b) \<and> \<not> is_positive (cmp b c)"
  then show "\<not> is_positive (cmp a c)"
    using num_less_trans_neg [of "key a" "key b" "key c"] by (simp add: cmp keys)
next
  fix a b assume "a \<in> A" "b \<in> A"
  then show "\<not> is_positive (cmp a b) \<or> \<not> is_positive (cmp b a)"
    using num_less_asym [of "key b" "key a"] by (auto simp: cmp)
qed

lemma ties_with_key:
  assumes "is_positive (cmp a b) = num_less (key b) (key a)"
    and "is_positive (cmp b a) = num_less (key a) (key b)"
    and "key a \<noteq> NaN" and "key b \<noteq> NaN"
  shows "ties_with cmp a b = (key a = key b)"
  using assms num_less_neither [of "key a" "key b"]
  by (auto simp: ties_with_def stands_before_def)

lemma sorted_by_key:
  assumes cmp: "\<And>a b. a \<in> set xs \<Longrightarrow> b \<in> set xs \<Longrightarrow> is_positive (cmp a b) = num_less (key b) (key a)"
    and keys: "\<And>r. r \<in> set xs \<Longrightarrow> key r \<noteq> NaN"
  shows "sorted_wrt (\<lambda>a b. num_le (key a) (key b)) (sorted_by cmp xs)"
proof -
  have "consistent_on cmp (set xs)"
    using cmp keys by (rule consistent_on_key)
  then have "sorted_wrt (stands_before cmp) (sorted_by cmp xs)"
    by (rule sorted_sorted_by)
  then show ?thesis
  proof (rule sorted_wrt_mono_rel [rotated])
    fix a b assume "a \<in> set (sorted_by cmp xs)" "b \<in> set (sorted_by cmp xs)"
      and "stands_before cmp a b"
    then show "num_le (key a) (key b)"
      using stands_before_key [of cmp a b key] by (simp add: set_sorted_by cmp keys)
  qed
qed

lemma stable_by_key:
  assumes cmp: "\<And>a b. a \<in> set xs \<Longrightarrow> b \<in> set xs \<Longrightarrow> is_positive (cmp a b) = num_less (key b) (key a)"
    and keys: "\<And>r. r \<in> set xs \<Longrightarrow> key r \<noteq> NaN"
  shows "filter (\<lambda>r. key r = k) (sorted_by cmp xs) = filter (\<lambda>r. key r = k) xs"
proof (cases "\<exists>a \<in> set xs. key a = k")
  case False
  then have "filter (\<lambda>r. key r = k) xs = []"
    by (simp add: filter_empty_conv)
  moreover from False have "filter (\<lambda>r. key r = k) (sorted_by cmp xs) = []"
    by (simp add: filter_empty_conv set_sorted_by)
  ultimately show ?thesis by simp
next
  case True
  then obtain a where a: "a \<in> set xs" and ka: "key a = k" by blast
  have tie: "ties_with cmp a r = (key r = k)" if "r \<in> set xs" for r
    using ties_with_key [of cmp a r key] a that ka by (auto simp: cmp keys)
  have "consistent_on cmp (set xs)"
    using cmp keys by (rule consistent_on_key)
  then have "filter (ties_with cmp a) (sorted_by cmp xs) = filter (ties_with cmp a) xs"
    using a by (rule filter_ties_sorted_by) simp
  moreover have "filter (ties_with cmp a) (sorted_by cmp xs) = filter (\<lambda>r. key r = k) (sorted_by cmp xs)"
    by (rule filter_cong) (simp_all add: tie set_sorted_by)
  moreover have "filter (ties_with cmp a) xs = filter (\<lambda>r. key r = k) xs"
    by (rule filter_cong) (simp_all add: tie)
  ultimately show ?thesis by simp
qed

subsection \<open>The three modes\<close>

lemma sortRecipes_by_profit:
  assumes "sortBy st = ByProfit" and "\<forall>r \<in> set rs. profit_in st r \<noteq> NaN"
  shows "sorted_wrt (\<lambda>a b. num_le (profit_in st b) (profit_in st a)) (sortRecipes lc st rs)"
    and "filter (\<lambda>r. profit_in st r = k) (sortRecipes lc st rs) = filter (\<lambda>r. profit_in st r = k) rs"
proof -
  let ?key = "\<lambda>r. num_neg (profit_in st r)"
  have cmp: "is_positive (compareRecipes lc st a b) = num_less (?key b) (?key a)"
    if "a \<in> set rs" "b \<in> set rs" for a b
    using that assms by (simp add: compareRecipes_def is_positive_sub num_less_neg)
  have keys: "?key r \<noteq> NaN" if "r \<in> set rs" for r
    using that assms(2) by (simp add: num_neg_eq_NaN)
  have "sorted_wrt (\<lambda>a b. num_le (?key a) (?key b)) (sorted_by (compareRecipes lc st) rs)"
    using cmp keys by (rule sorted_by_key)
  then show "sorted_wrt (\<lambda>a b. num_le (profit_in st b) (profit_in st a)) (sortRecipes lc st rs)"
    unfolding sortRecipes_def
    by (rule sorted_wrt_mono_rel [rotated]) (simp add: num_le_def num_less_neg num_neg_eq_NaN)
  have "filter (\<lambda>r. ?key r = num_neg k) (sorted_by (compareRecipes lc st) rs)
          = filter (\<lambda>r. ?key r = num_neg k) rs"
    using cmp keys by (rule stable_by_key)
  then show "filter (\<lambda>r. profit_in st r = k) (sortRecipes lc st rs) = filter (\<lambda>r. profit_in st r = k) rs"
    by (simp add: sortRecipes_def num_neg_inj)
qed

lemma sortRecipes_by_cost:
  assumes "sortBy st = ByTotalCost" and "\<forall>r \<in> set rs. cost_in st r \<noteq> NaN"
  shows "sorted_wrt (\<lambda>a b. num_le (cost_in st a) (cost_in st b)) (sortRecipes lc st rs)"
    and "filter (\<lambda>r. cost_in st r = k) (sortRecipes lc st rs) = filter (\<lambda>r. cost_in st r = k) rs"
proof -
  have cmp: "is_positive (compareRecipes lc st a b) = num_less (cost_in st b) (cost_in st a)"
    if "a \<in> set rs" "b \<in> set rs" for a b
    using that assms by (simp add: compareRecipes_def is_positive_sub)
  have keys: "cost_in st r \<noteq> NaN" if "r \<in> set rs" for r
    using that assms(2) by simp
  show "sorted_wrt (\<lambda>a b. num_le (cost_in st a) (cost_in st b)) (sortRecipes lc st rs)"
    unfolding sortRecipes_def using cmp keys by (rule sorted_by_key)
  show "filter (\<lambda>r. cost_in st r = k) (sortRecipes lc st rs) = filter (\<lambda>r. cost_in st r = k) rs"
    unfolding sortRecipes_def using cmp keys by (rule stable_by_key)
qed

lemma sortRecipes_by_name:
  assumes "sortBy st = ByName" and "locale_order_on lc (recipe_name ` set rs)"
  shows "sorted_wrt (\<lambda>a b. lc (recipe_name a) (recipe_name b) \<le> 0) (sortRecipes lc st rs)"
    and "a \<in> set rs \<Longrightarrow>
         filter (\<lambda>r. lc (recipe_name a) (recipe_name r) \<le> 0 \<and> lc (recipe_name r) (recipe_name a) \<le> 0)
           (sortRecipes lc st rs)
         = filter (\<lambda>r. lc (recipe_name a) (recipe_name r) \<le> 0 \<and> lc (recipe_name r) (recipe_name a) \<le> 0) rs"
proof -
  have before: "stands_before (compareRecipes lc st) x y = (lc (recipe_name x) (recipe_name y) \<le> 0)"
    for x y
    using assms(1) by (simp add: stands_before_def compareRecipes_def not_less)
  have cons: "consistent_on (compareRecipes lc st) (set rs)"
    using assms(2) unfolding consistent_on_def locale_order_on_def before by blast
  then have "sorted_wrt (stands_before (compareRecipes lc st)) (sorted_by (compareRecipes lc st) rs)"
    by (rule sorted_sorted_by)
  then show "sorted_wrt (\<lambda>a b. lc (recipe_name a) (recipe_name b) \<le> 0) (sortRecipes lc st rs)"
    unfolding sortRecipes_def
    by (rule sorted_wrt_mono_rel [rotated]) (simp add: before)
  have ties: "ties_with (compareRecipes lc st) a
      = (\<lambda>r. lc (recipe_name a) (recipe_name r) \<le> 0 \<and> lc (recipe_name r) (recipe_name a) \<le> 0)"
    by (intro ext) (simp add: ties_with_def before)
  assume "a \<in> set rs"
  with cons have "filter (ties_with (compareRecipes lc st) a) (sorted_by (compareRecipes lc st) rs)
      = filter (ties_with (compareRecipes lc st) a) rs"
    by (rule filter_ties_sorted_by) simp
  then show "filter (\<lambda>r. lc (recipe_name a) (recipe_name r) \<le> 0 \<and> lc (recipe_name r) (recipe_name a) \<le> 0)
           (sortRecipes lc st rs)
         = filter (\<lambda>r. lc (recipe_name a) (recipe_name r) \<le> 0 \<and> lc (recipe_name r) (recipe_name a) \<le> 0) rs"
    by (simp add: sortRecipes_def ties)
qed

text \<open>
  Claim C8, as amended. \<open>sortRecipes\<close> rearranges its input and nothing else. In the mode
  \<open>name\<close>, when \<open>localeCompare\<close> orders the names of the input, the result ascends by
  \<open>localeCompare\<close> on the names. In the mode \<open>profit\<close>, when no profit is NaN, the result
  descends by the profit \<open>sellValue - calculateRecipeCost\<close>, and the recipes of any one
  profit stand in the order they had in the input. In the mode \<open>totalCost\<close>, when no
  cost is NaN, the result ascends by \<open>calculateRecipeCost\<close>, and the recipes of any one
  cost stand in the order they had in the input.
\<close>

theorem sortRecipes_order:
  "mset (sortRecipes lc st rs) = mset rs
   \<and> (sortBy st = ByName \<and> locale_order_on lc (recipe_name ` set rs) \<longrightarrow>
        sorted_wrt (\<lambda>a b. lc (recipe_name a) (recipe_name b) \<le> 0) (sortRecipes lc st rs))
   \<and> (sortBy st = ByProfit \<and> (\<forall>r \<in> set rs. profit_in st r \<noteq> NaN) \<longrightarrow>
        sorted_wrt (\<lambda>a b. num_le (profit_in st b) (profit_in st a)) (sortRecipes lc st rs)
        \<and> (\<forall>k. filter (\<lambda>r. profit_in st r = k) (sortRecipes lc st rs)
                 = filter (\<lambda>r. profit_in st r = k) rs))
   \<and> (sortBy st = ByTotalCost \<and> (\<forall>r \<in> set rs. cost_in st r \<noteq> NaN) \<longrightarrow>
        sorted_wrt (\<lambda>a b. num_le (cost_in st a) (cost_in st b)) (sortRecipes lc st rs)
        \<and> (\<forall>k. filter (\<lambda>r. cost_in st r = k) (sortRecipes lc st rs)
                 = filter (\<lambda>r. cost_in st r = k) rs))"
proof (intro conjI impI allI)
  show "mset (sortRecipes lc st rs) = mset rs"
    by (simp add: sortRecipes_def mset_sorted_by)
next
  assume "sortBy st = ByName \<and> locale_order_on lc (recipe_name ` set rs)"
  then show "sorted_wrt (\<lambda>a b. lc (recipe_name a) (recipe_name b) \<le> 0) (sortRecipes lc st rs)"
    by (simp add: sortRecipes_by_name(1))
next
  assume "sortBy st = ByProfit \<and> (\<forall>r \<in> set rs. profit_in st r \<noteq> NaN)"
  then show "sorted_wrt (\<lambda>a b. num_le (profit_in st b) (profit_in st a)) (sortRecipes lc st rs)"
    by (simp add: sortRecipes_by_profit(1))
next
  fix k
  assume "sortBy st = ByProfit \<and> (\<forall>r \<in> set rs. profit_in st r \<noteq> NaN)"
  then show "filter (\<lambda>r. profit_in st r = k) (sortRecipes lc st rs)
               = filter (\<lambda>r. profit_in st r = k) rs"
    by (simp add: sortRecipes_by_profit(2))
next
  assume "sortBy st = ByTotalCost \<and> (\<forall>r \<in> set rs. cost_in st r \<noteq> NaN)"
  then show "sorted_wrt (\<lambda>a b. num_le (cost_in st a) (cost_in st b)) (sortRecipes lc st rs)"
    by (simp add: sortRecipes_by_cost(1))
next
  fix k
  assume "sortBy st = ByTotalCost \<and> (\<forall>r \<in> set rs. cost_in st r \<noteq> NaN)"
  then show "filter (\<lambda>r. cost_in st r = k) (sortRecipes lc st rs)
               = filter (\<lambda>r. cost_in st r = k) rs"
    by (simp add: sortRecipes_by_cost(2))
qed

lemma example_profits:
  "profit_in example_state R1 = Fin 20" "profit_in example_state R2 = Fin 50"
  "profit_in example_state R3 = Fin 40" "profit_in example_state R4 = Fin 20"
  by (simp_all add: profit_in_def cost_in_def calculateRecipeCost_def cost_step_def num_sub_def
      get_property_def object_prototype_members_def
      example_state_def example_table_def R1_def R2_def R3_def R4_def iron_ore_def gem_def)

lemma example_costs:
  "cost_in (example_state\<lparr>sortBy := ByTotalCost\<rparr>) R1 = Fin 30"
  "cost_in (example_state\<lparr>sortBy := ByTotalCost\<rparr>) R2 = Fin 100"
  "cost_in (example_state\<lparr>sortBy := ByTotalCost\<rparr>) R3 = Fin 0"
  "cost_in (example_state\<lparr>sortBy := ByTotalCost\<rparr>) R4 = Fin 15"
  by (simp_all add: cost_in_def calculateRecipeCost_def cost_step_def
      get_property_def object_prototype_members_def
      example_state_def example_table_def R1_def R2_def R3_def R4_def iron_ore_def gem_def)

lemma example_names:
  "locale_order_on code_order (recipe_name ` set [R4, R2, R1, R3])"
  by (simp add: locale_order_on_def R1_def R2_def R3_def R4_def)

theorem sortRecipes_order_witness:
  "sorted_wrt (\<lambda>a b. num_le (profit_in example_state b) (profit_in example_state a))
     (sortRecipes code_order example_state [R4, R2, R1, R3])
   \<and> filter (\<lambda>r. profit_in example_state r = Fin 20)
        (sortRecipes code_order example_state [R4, R2, R1, R3]) = [R4, R1]
   \<and> sorted_wrt (\<lambda>a b. code_order (recipe_name a) (recipe_name b) \<le> 0)
        (sortRecipes code_order (example_state\<lparr>sortBy := ByName\<rparr>) [R4, R2, R1, R3])
   \<and> sorted_wrt (\<lambda>a b. num_le (cost_in (example_state\<lparr>sortBy := ByTotalCost\<rparr>) a)
                           (cost_in (example_state\<lparr>sortBy := ByTotalCost\<rparr>) b))
        (sortRecipes code_order (example_state\<lparr>sortBy := ByTotalCost\<rparr>) [R4, R2, R1, R3])"
proof -
  have mode: "sortBy example_state = ByProfit"
    by (simp add: example_state_def)
  have profits: "\<forall>r \<in> set [R4, R2, R1, R3]. profit_in example_state r \<noteq> NaN"
    by (simp add: example_profits)
  have costs: "\<forall>r \<in> set [R4, R2, R1, R3]. cost_in (example_state\<lparr>sortBy := ByTotalCost\<rparr>) r \<noteq> NaN"
    by (simp add: example_costs)
  have distinct_profits: "filter (\<lambda>r. profit_in example_state r = Fin 20) [R4, R2, R1, R3] = [R4, R1]"
    by (simp add: example_profits)
  from sortRecipes_order [of code_order example_state "[R4, R2, R1, R3]"] mode profits
  have a: "sorted_wrt (\<lambda>a b. num_le (profit_in example_state b) (profit_in example_state a))
     (sortRecipes code_order example_state [R4, R2, R1, R3])"
    and "filter (\<lambda>r. profit_in example_state r = Fin 20)
        (sortRecipes code_order example_state [R4, R2, R1, R3])
        = filter (\<lambda>r. profit_in example_state r = Fin 20) [R4, R2, R1, R3]"
    by blast+
  then have b: "filter (\<lambda>r. profit_in example_state r = Fin 20)
        (sortRecipes code_order example_state [R4, R2, R1, R3]) = [R4, R1]"
    by (simp only: distinct_profits)
  from sortRecipes_order [of code_order "example_state\<lparr>sortBy := ByName\<rparr>" "[R4, R2, R1, R3]"]
    example_names
  have c: "sorted_wrt (\<lambda>a b. code_order (recipe_name a) (recipe_name b) \<le> 0)
        (sortRecipes code_order (example_state\<lparr>sortBy := ByName\<rparr>) [R4, R2, R1, R3])"
    by simp
  from sortRecipes_order [of code_order "example_state\<lparr>sortBy := ByTotalCost\<rparr>" "[R4, R2, R1, R3]"]
    costs
  have d: "sorted_wrt (\<lambda>a b. num_le (cost_in (example_state\<lparr>sortBy := ByTotalCost\<rparr>) a)
                           (cost_in (example_state\<lparr>sortBy := ByTotalCost\<rparr>) b))
        (sortRecipes code_order (example_state\<lparr>sortBy := ByTotalCost\<rparr>) [R4, R2, R1, R3])"
    by simp
  show ?thesis
    by (intro conjI) (rule a, rule b, rule c, rule d)
qed

text \<open>
  The claim as it stands fails when a profit or a cost is NaN. With the price field of
  \<open>iron_ore\<close> emptied, \<open>R1\<close> has the cost and the profit NaN, the comparator is NaN on
  \<open>R1\<close> and any other recipe, and the sort moves nothing: by profit \<open>R3\<close> with 40 stays
  before \<open>R2\<close> with 50, by cost \<open>R2\<close> with 100 stays before \<open>R3\<close> with 0.
\<close>

theorem NaN_profit_left_unsorted:
  "st_recipes emptied_field_state = [R3, R1, R2]
   \<and> map (profit_in emptied_field_state) [R3, R1, R2] = [Fin 40, NaN, Fin 50]
   \<and> sortRecipes code_order emptied_field_state [R3, R1, R2] = [R3, R1, R2]
   \<and> filteredRecipes code_order emptied_field_state = [R3, R1, R2]
   \<and> map (cost_in (emptied_field_state\<lparr>sortBy := ByTotalCost\<rparr>)) [R2, R1, R3]
       = [Fin 100, NaN, Fin 0]
   \<and> sortRecipes code_order (emptied_field_state\<lparr>sortBy := ByTotalCost\<rparr>) [R2, R1, R3]
       = [R2, R1, R3]"
proof -
  have fields: "st_recipes emptied_field_state = [R3, R1, R2]"
    "selectedSkill emptied_field_state = ''All''" "sortBy emptied_field_state = ByProfit"
    "st_ingredients emptied_field_state
       = [(''iron_ore'', iron_ore\<lparr>defaultPrice := NaN\<rparr>), (''gem'', gem)]"
    by (simp_all add: emptied_field_state_def handleIngredientPriceChange_def
        withIngredientPrice_def example_state_def example_table_def)
  have costs: "cost_in emptied_field_state R1 = NaN" "cost_in emptied_field_state R2 = Fin 100"
    "cost_in emptied_field_state R3 = Fin 0"
    by (simp_all add: cost_in_def calculateRecipeCost_def cost_step_def get_property_def
        object_prototype_members_def fields R1_def R2_def R3_def iron_ore_def)
  have sells: "sellValue R1 = Fin 50" "sellValue R2 = Fin 150" "sellValue R3 = Fin 40"
    by (simp_all add: R1_def R2_def R3_def)
  have profits: "profit_in emptied_field_state R1 = NaN" "profit_in emptied_field_state R2 = Fin 50"
    "profit_in emptied_field_state R3 = Fin 40"
    by (simp_all add: profit_in_def costs num_sub_def sells)
  have costs': "cost_in (emptied_field_state\<lparr>sortBy := ByTotalCost\<rparr>) r = cost_in emptied_field_state r"
    for r :: recipe
    by (simp add: cost_in_def)
  have a: "st_recipes emptied_field_state = [R3, R1, R2]"
    by (rule fields)
  have b: "map (profit_in emptied_field_state) [R3, R1, R2] = [Fin 40, NaN, Fin 50]"
    by (simp add: profits)
  have c: "sortRecipes code_order emptied_field_state [R3, R1, R2] = [R3, R1, R2]"
    by (simp add: sortRecipes_def sorted_by_def compareRecipes_def fields profits num_sub_def)
  have d: "filteredRecipes code_order emptied_field_state = [R3, R1, R2]"
    by (simp add: filteredRecipes_def filterBySkill_def fields c)
  have e: "map (cost_in (emptied_field_state\<lparr>sortBy := ByTotalCost\<rparr>)) [R2, R1, R3]
       = [Fin 100, NaN, Fin 0]"
    by (simp add: costs' costs)
  have f: "sortRecipes code_order (emptied_field_state\<lparr>sortBy := ByTotalCost\<rparr>) [R2, R1, R3]
       = [R2, R1, R3]"
    by (simp add: sortRecipes_def sorted_by_def compareRecipes_def costs' costs num_sub_def)
  show ?thesis
    by (intro conjI) (rule a, rule b, rule c, rule d, rule e, rule f)
qed

section \<open>Properties of the listing over the store of arrays\<close>

lemma filteredRecipes_in_store_other_skill:
  assumes "selectedSkill st \<noteq> ''All''" and "recipesRef < length h"
  shows "fst (filteredRecipes_in_store lc st recipesRef h) ! recipesRef = h ! recipesRef"
    and "snd (filteredRecipes_in_store lc st recipesRef h) = length h"
    and "fst (filteredRecipes_in_store lc st recipesRef h) ! length h
           = filteredRecipes lc (st\<lparr>st_recipes := h ! recipesRef\<rparr>)"
  using assms
  by (simp_all add: filteredRecipes_in_store_def Array_filter_def Array_sort_def array_new_def
      filteredRecipes_def sortRecipes_def filterBySkill_def nth_append)

lemma filteredRecipes_in_store_all:
  assumes "selectedSkill st = ''All''" and "recipesRef < length h"
  shows "snd (filteredRecipes_in_store lc st recipesRef h) = recipesRef"
    and "fst (filteredRecipes_in_store lc st recipesRef h) ! recipesRef
           = filteredRecipes lc (st\<lparr>st_recipes := h ! recipesRef\<rparr>)"
  using assms
  by (simp_all add: filteredRecipes_in_store_def Array_sort_def
      filteredRecipes_def sortRecipes_def filterBySkill_def)

lemma example_state_fields:
  "st_recipes example_state = [R1, R2, R3]" "selectedSkill example_state = ''All''"
  "sortBy example_state = ByProfit" "st_ingredients example_state = example_table"
  by (simp_all add: example_state_def)

lemma example_listing:
  "filteredRecipes code_order example_state = [R2, R3, R1]"
  by (simp add: filteredRecipes_def sortRecipes_def filterBySkill_def sorted_by_def
      compareRecipes_def example_profits example_state_fields num_sub_def)

text \<open>
  Claim C2. Computing the listing is not without effect on the array of the state
  variable \<open>recipes\<close>. With a skill selected, \<open>filter\<close> allocates the array that \<open>sort\<close>
  then writes to, and the array of the state is as before. With the skill \<open>All\<close>,
  \<open>sort\<close> is called on the array of the state itself and leaves it in the order of the
  listing: the recipes \<open>R1\<close>, \<open>R2\<close>, \<open>R3\<close> of the state, sorted by profit, are left as
  \<open>R2\<close>, \<open>R3\<close>, \<open>R1\<close>.
\<close>

theorem sort_reorders_recipes_of_state:
  "fst (filteredRecipes_in_store code_order example_state 0 [[R1, R2, R3]]) ! 0 = [R2, R3, R1]
   \<and> snd (filteredRecipes_in_store code_order example_state 0 [[R1, R2, R3]]) = 0
   \<and> fst (filteredRecipes_in_store code_order (example_state\<lparr>selectedSkill := ''Smelting''\<rparr>) 0
        [[R1, R2, R3]]) ! 0 = [R1, R2, R3]
   \<and> [R2, R3, R1] \<noteq> [R1, R2, R3]"
proof -
  have all: "selectedSkill example_state = ''All''"
    by (simp add: example_state_def)
  have same: "example_state\<lparr>st_recipes := [R1, R2, R3]\<rparr> = example_state"
    by (simp add: example_state_def)
  have a: "fst (filteredRecipes_in_store code_order example_state 0 [[R1, R2, R3]]) ! 0 = [R2, R3, R1]"
    using filteredRecipes_in_store_all(2) [of example_state 0 "[[R1, R2, R3]]" code_order] all
    by (simp add: same example_listing)
  have b: "snd (filteredRecipes_in_store code_order example_state 0 [[R1, R2, R3]]) = 0"
    using filteredRecipes_in_store_all(1) [of example_state 0 "[[R1, R2, R3]]" code_order] all
    by simp
  have c: "fst (filteredRecipes_in_store code_order (example_state\<lparr>selectedSkill := ''Smelting''\<rparr>) 0
        [[R1, R2, R3]]) ! 0 = [R1, R2, R3]"
    using filteredRecipes_in_store_other_skill(1)
            [of "example_state\<lparr>selectedSkill := ''Smelting''\<rparr>" 0 "[[R1, R2, R3]]" code_order]
    by simp
  have d: "[R2, R3, R1] \<noteq> [R1, R2, R3]"
    by (simp add: R1_def R2_def)
  show ?thesis
    by (intro conjI) (rule a, rule b, rule c, rule d)
qed

section \<open>A price stored under an id the table lacks\<close>

lemma update_entry_in_set: "(k, v) \<in> set (AList.update k v al)"
  by (induction al) auto

text \<open>For every id the table lacks, the entry the handler stores has no name, and the
  panel given the values of the table throws.\<close>

lemma unknown_id_breaks_panel:
  assumes "map_of (st_ingredients st) i = None"
  shows "filtered lower
           \<lparr>im_ingredients = map snd (st_ingredients (handleIngredientPriceChange i p st)),
            search = q\<rparr> = Inl TypeError"
proof -
  let ?entry = "\<lparr>ing_id = None, ing_name = None, icon = None, defaultPrice = p\<rparr>"
  have "(i, ?entry) \<in> set (st_ingredients (handleIngredientPriceChange i p st))"
    using assms
    by (simp add: handleIngredientPriceChange_def withIngredientPrice_def update_entry_in_set)
  then have "?entry \<in> set (map snd (st_ingredients (handleIngredientPriceChange i p st)))"
    by force
  then show ?thesis
    by (intro filtered_nameless [where ing = ?entry]) simp_all
qed

text \<open>
  Claim C9. The entry stored for an id the catalogue does not know is read back. In the
  state of the example, \<open>bogus_id\<close> is no key of the price table;
  \<open>handleIngredientPriceChange\<close> stores under it an entry with the price and no name, and
  the ingredient panel, which is given the values of the table, throws \<open>TypeError\<close> on
  it whatever the search text, where before it did not. The cost computation reads such
  an entry too: with a price of 10 stored under \<open>flax\<close>, an id of no ingredient and no
  recipe that \<open>R3\<close> names, \<open>R3\<close> costs 40 instead of 0.
\<close>

theorem unknown_id_entry_read_back:
  "map_of (st_ingredients example_state) ''bogus_id'' = None
   \<and> map_of (st_ingredients (handleIngredientPriceChange ''bogus_id'' (Fin 99) example_state))
        ''bogus_id''
       = Some \<lparr>ing_id = None, ing_name = None, icon = None, defaultPrice = Fin 99\<rparr>
   \<and> filtered toLowerCase
        \<lparr>im_ingredients =
           map snd (st_ingredients (handleIngredientPriceChange ''bogus_id'' (Fin 99) example_state)),
         search = q\<rparr> = Inl TypeError
   \<and> filtered toLowerCase \<lparr>im_ingredients = map snd (st_ingredients example_state), search = q\<rparr>
       \<noteq> Inl TypeError
   \<and> map_of (st_ingredients example_state) ''flax'' = None
   \<and> find (\<lambda>r. recipe_id r = ''flax'') (st_recipes example_state) = None
   \<and> cost_in example_state R3 = Fin 0
   \<and> cost_in (handleIngredientPriceChange ''flax'' (Fin 10) example_state) R3 = Fin 40"
proof -
  let ?st' = "handleIngredientPriceChange ''flax'' (Fin 10) example_state"
  have fields: "st_recipes ?st' = [R1, R2, R3]"
    "st_ingredients ?st' = [(''iron_ore'', iron_ore), (''gem'', gem),
       (''flax'', \<lparr>ing_id = None, ing_name = None, icon = None, defaultPrice = Fin 10\<rparr>)]"
    by (simp_all add: handleIngredientPriceChange_def withIngredientPrice_def example_state_def
        example_table_def)
  have a: "map_of (st_ingredients example_state) ''bogus_id'' = None"
    by (simp add: example_state_fields example_table_def)
  have b: "map_of (st_ingredients (handleIngredientPriceChange ''bogus_id'' (Fin 99) example_state))
        ''bogus_id''
       = Some \<lparr>ing_id = None, ing_name = None, icon = None, defaultPrice = Fin 99\<rparr>"
    by (simp add: handleIngredientPriceChange_def withIngredientPrice_def example_state_fields
        example_table_def update_conv')
  have c: "filtered toLowerCase
        \<lparr>im_ingredients =
           map snd (st_ingredients (handleIngredientPriceChange ''bogus_id'' (Fin 99) example_state)),
         search = q\<rparr> = Inl TypeError"
    using a by (rule unknown_id_breaks_panel)
  have d: "filtered toLowerCase \<lparr>im_ingredients = map snd (st_ingredients example_state), search = q\<rparr>
       \<noteq> Inl TypeError"
    by (simp add: filtered_def example_state_fields example_table_def iron_ore_def gem_def)
  have e: "map_of (st_ingredients example_state) ''flax'' = None"
    by (simp add: example_state_fields example_table_def)
  have f: "find (\<lambda>r. recipe_id r = ''flax'') (st_recipes example_state) = None"
    by (simp add: example_state_fields R1_def R2_def R3_def)
  have g: "cost_in example_state R3 = Fin 0"
    by (simp add: cost_in_def calculateRecipeCost_def cost_step_def get_property_def
        object_prototype_members_def example_state_fields example_table_def
        R1_def R2_def R3_def)
  have h: "cost_in ?st' R3 = Fin 40"
    by (simp add: cost_in_def calculateRecipeCost_def cost_step_def get_property_def fields R3_def)
  show ?thesis
    by (intro conjI) (rule a, rule b, rule c, rule d, rule e, rule f, rule g, rule h)
qed

section \<open>Export followed by import\<close>

lemma st_ingredients_foldl:
  "st_ingredients (foldl (\<lambda>s (i, price). handleIngredientPriceChange i price s) s kvs)
     = foldl (\<lambda>table (i, price). withIngredientPrice i price table) (st_ingredients s) kvs"
  by (induction kvs arbitrary: s) (auto simp: handleIngredientPriceChange_def)

lemma price_of_foldl_other:
  "k \<notin> fst ` set kvs \<Longrightarrow>
   price_of (foldl (\<lambda>table (i, price). withIngredientPrice i price table) table kvs) k
     = price_of table k"
  by (induction kvs arbitrary: table) (auto simp: price_of_withIngredientPrice)

lemma price_of_foldl_distinct:
  "distinct (map fst kvs) \<Longrightarrow> (k, p) \<in> set kvs \<Longrightarrow>
   price_of (foldl (\<lambda>table (i, price). withIngredientPrice i price table) table kvs) k = Some p"
proof (induction kvs arbitrary: table)
  case Nil
  then show ?case by simp
next
  case (Cons e kvs)
  obtain k' p' where e: "e = (k', p')" by (cases e)
  show ?case
  proof (cases "(k, p) = (k', p')")
    case True
    with Cons.prems(1) e have "k \<notin> fst ` set kvs" by simp
    then show ?thesis
      using True by (simp add: e price_of_foldl_other price_of_withIngredientPrice)
  next
    case False
    with Cons.prems(2) e have "(k, p) \<in> set kvs" by auto
    moreover from Cons.prems(1) have "distinct (map fst kvs)" by simp
    ultimately show ?thesis
      by (simp add: e Cons.IH)
  qed
qed

text \<open>The import reads back the entries of an exported document whose price was finite.\<close>

lemma numeric_entries_prices:
  "numeric_entries (map (\<lambda>ing. (f ing, json_of_number (g ing))) xs)
     = map (\<lambda>ing. (f ing, g ing)) (filter (\<lambda>ing. is_finite (g ing)) xs)"
proof (induction xs)
  case Nil
  show ?case by (simp add: numeric_entries_Nil)
next
  case (Cons x xs)
  then show ?case
    by (cases "g x") (simp_all add: numeric_entries_Cons)
qed

text \<open>
  Claim C7, as amended. Take a price table whose ingredients have pairwise different ids.
  Exporting it and importing the document into any other state shows the success notice
  and gives a table that has, under the id of every ingredient of the exported table
  whose id is not \<open>__proto__\<close> and whose price is finite, the price the ingredient had.
\<close>

theorem export_import_roundtrip:
  assumes "distinct (map export_key (map snd (st_ingredients st)))"
  shows "(\<forall>ing \<in> set (map snd (st_ingredients st)). \<forall>i.
            ing_id ing = Some i \<and> i \<noteq> ''__proto__'' \<and> is_finite (defaultPrice ing) \<longrightarrow>
            price_of (st_ingredients (fst (export_then_import st q fresh))) i
              = Some (defaultPrice ing))
         \<and> snd (export_then_import st q fresh) = [UpdatedSuccessfully]"
proof -
  let ?ings = "map snd (st_ingredients st)"
  let ?written = "filter (\<lambda>ing. export_key ing \<noteq> ''__proto__'') ?ings"
  let ?read = "filter (\<lambda>ing. is_finite (defaultPrice ing)) ?written"
  let ?prices = "map (\<lambda>ing. (export_key ing, defaultPrice ing)) ?read"
  have "priceData ?ings = map (\<lambda>ing. (export_key ing, defaultPrice ing)) ?written"
    using assms by (rule priceData_distinct)
  then have doc: "handleDownload \<lparr>im_ingredients = ?ings, search = q\<rparr>
               = JObj (map (\<lambda>ing. (export_key ing, json_of_number (defaultPrice ing))) ?written)"
    by (simp add: handleDownload_def comp_def)
  have result: "export_then_import st q fresh
      = (foldl (\<lambda>s (i, price). handleIngredientPriceChange i price s) fresh ?prices,
         [UpdatedSuccessfully])"
    unfolding export_then_import_def doc
    by (simp add: handleUpload_parsed numeric_entries_prices)
  have "distinct (map export_key ?written)"
    using assms by (rule distinct_map_filter)
  then have "distinct (map export_key ?read)"
    by (rule distinct_map_filter)
  moreover have "map fst ?prices = map export_key ?read"
    by (simp add: comp_def)
  ultimately have keys: "distinct (map fst ?prices)"
    by (simp only:)
  have "price_of (st_ingredients (fst (export_then_import st q fresh))) i = Some (defaultPrice ing)"
    if "ing \<in> set ?ings" and "ing_id ing = Some i" and "i \<noteq> ''__proto__''"
      and "is_finite (defaultPrice ing)" for ing i
  proof -
    have "export_key ing = i"
      using that(2) by (simp add: export_key_def property_key_def)
    with that have "(i, defaultPrice ing) \<in> set ?prices"
      by force
    with keys have "price_of (foldl (\<lambda>table (i, price). withIngredientPrice i price table)
                   (st_ingredients fresh) ?prices) i = Some (defaultPrice ing)"
      by (rule price_of_foldl_distinct)
    then show ?thesis
      by (simp add: result st_ingredients_foldl)
  qed
  then show ?thesis
    by (simp add: result)
qed

lemma edited_state_table:
  "st_ingredients (handleIngredientPriceChange ''gem'' (Fin 30) example_state)
     = [(''iron_ore'', iron_ore), (''gem'', gem\<lparr>defaultPrice := Fin 30\<rparr>)]"
  by (simp add: handleIngredientPriceChange_def withIngredientPrice_def example_state_def
      example_table_def)

theorem export_import_roundtrip_witness:
  "price_of (st_ingredients (fst (export_then_import
       (handleIngredientPriceChange ''gem'' (Fin 30) example_state) ''ore'' example_state))) ''gem''
     = Some (Fin 30)
   \<and> price_of (st_ingredients (fst (export_then_import
       (handleIngredientPriceChange ''gem'' (Fin 30) example_state) ''ore'' example_state))) ''iron_ore''
     = Some (Fin 10)
   \<and> price_of (st_ingredients example_state) ''gem'' = Some (Fin 25)"
proof -
  let ?st = "handleIngredientPriceChange ''gem'' (Fin 30) example_state"
  let ?gem = "gem\<lparr>defaultPrice := Fin 30\<rparr>"
  have keys: "distinct (map export_key (map snd (st_ingredients ?st)))"
    by (simp add: edited_state_table export_key_def property_key_def iron_ore_def gem_def)
  have gem: "?gem \<in> set (map snd (st_ingredients ?st))" "ing_id ?gem = Some ''gem''"
    "(''gem'' :: string) \<noteq> ''__proto__''" "is_finite (defaultPrice ?gem)"
    "defaultPrice ?gem = Fin 30"
    by (simp_all add: edited_state_table gem_def)
  have ore: "iron_ore \<in> set (map snd (st_ingredients ?st))" "ing_id iron_ore = Some ''iron_ore''"
    "(''iron_ore'' :: string) \<noteq> ''__proto__''" "is_finite (defaultPrice iron_ore)"
    "defaultPrice iron_ore = Fin 10"
    by (simp_all add: edited_state_table iron_ore_def)
  note trip = export_import_roundtrip [OF keys, of "''ore''" example_state]
  from trip gem(1-4)
  have "price_of (st_ingredients (fst (export_then_import ?st ''ore'' example_state))) ''gem''
          = Some (defaultPrice ?gem)"
    by blast
  then have a: "price_of (st_ingredients (fst (export_then_import ?st ''ore'' example_state))) ''gem''
          = Some (Fin 30)"
    by (simp only: gem(5))
  from trip ore(1-4)
  have "price_of (st_ingredients (fst (export_then_import ?st ''ore'' example_state))) ''iron_ore''
          = Some (defaultPrice iron_ore)"
    by blast
  then have b: "price_of (st_ingredients (fst (export_then_import ?st ''ore'' example_state)))
      ''iron_ore'' = Some (Fin 10)"
    by (simp only: ore(5))
  have c: "price_of (st_ingredients example_state) ''gem'' = Some (Fin 25)"
    by (simp add: example_state_fields example_table_def price_of_def gem_def)
  show ?thesis
    by (intro conjI) (rule a, rule b, rule c)
qed

text \<open>
  The claim as it stands fails for a price that is a number and not finite.
  \<open>JSON.stringify\<close> writes such a price as \<open>null\<close>, and the import passes over an entry
  whose value is not a number: a table with \<open>iron_ore\<close> at infinity, exported and imported
  into the catalogue's state, leaves \<open>iron_ore\<close> at the 10 of the catalogue. The same
  holds of NaN, the price an emptied price field gives. It fails for the id \<open>__proto__\<close>,
  which the export writes no key for, and for two ingredients of one id, of which the
  export writes the second only. Such tables come with a saved state.
\<close>

theorem infinite_price_not_restored:
  "price_of (st_ingredients (example_state\<lparr>st_ingredients :=
        [(''iron_ore'', iron_ore\<lparr>defaultPrice := PInf\<rparr>)]\<rparr>)) ''iron_ore'' = Some PInf
   \<and> handleDownload \<lparr>im_ingredients = [iron_ore\<lparr>defaultPrice := PInf\<rparr>], search = ''''\<rparr>
       = JObj [(''iron_ore'', JNull)]
   \<and> price_of (st_ingredients (fst (export_then_import
        (example_state\<lparr>st_ingredients := [(''iron_ore'', iron_ore\<lparr>defaultPrice := PInf\<rparr>)]\<rparr>)
        '''' example_state))) ''iron_ore'' = Some (Fin 10)
   \<and> price_of (st_ingredients (handleIngredientPriceChange ''iron_ore'' NaN example_state))
        ''iron_ore'' = Some NaN
   \<and> price_of (st_ingredients (fst (export_then_import
        (handleIngredientPriceChange ''iron_ore'' NaN example_state)
        '''' example_state))) ''iron_ore'' = Some (Fin 10)
   \<and> price_of proto_table ''__proto__'' = Some (Fin 5)
   \<and> price_of (st_ingredients (fst (export_then_import
        (example_state\<lparr>st_ingredients := proto_table\<rparr>) '''' example_state))) ''__proto__'' = None
   \<and> map (\<lambda>ing. (ing_id ing, defaultPrice ing)) (map snd twin_table)
       = [(Some ''ore'', Fin 1), (Some ''ore'', Fin 2)]
   \<and> price_of (st_ingredients (fst (export_then_import
        (example_state\<lparr>st_ingredients := twin_table\<rparr>) '''' example_state))) ''ore'' = Some (Fin 2)"
  by (simp add: export_then_import_def handleDownload_def priceData_def export_key_def
      property_key_def handleUpload_def reader_onload_def price_of_def example_state_def
      example_table_def iron_ore_def gem_def handleIngredientPriceChange_def
      withIngredientPrice_def proto_table_def twin_table_def)

end
